theory Spec2Isabelle
  imports Main "HOL-Library.Sublist" "HOL-Library.Char_ord" "HOL-Library.Word"
begin

section \<open>Errors: sentinels, wrapping and \<open>errors.Is\<close>\<close>

text \<open>
  \<^verbatim>\<open>options.go\<close> declares five sentinel errors with \<^verbatim>\<open>errors.New\<close>. Each is a distinct
  pointer, so two sentinels are equal only when they are the same variable.
\<close>

datatype sentinel =
    ErrConnectionFailed
  | ErrSSHAuthFailed
  | ErrVMNotReady
  | ErrTimeout
  | ErrSFTPFailed

text \<open>
  The operands of a format string are kept as data instead of being rendered:
  \<open>ArgS\<close> is printed with \<^verbatim>\<open>%s\<close>, \<open>ArgQ\<close> with \<^verbatim>\<open>%q\<close>, \<open>ArgD\<close> with \<^verbatim>\<open>%d\<close> and
  \<open>ArgV\<close> is the text of an error printed with \<^verbatim>\<open>%v\<close>.
\<close>

datatype fmt_arg = ArgS string | ArgQ string | ArgD int | ArgV string

text \<open>
  Why \<^verbatim>\<open>net/url\<close> rejected an address. \<open>Unmodelled\<close> marks the two shapes of authority
  this development does not parse (user information and bracketed IP literals); nothing is
  proved about them.
\<close>

datatype url_error =
    InvalidControlCharacter
  | MissingProtocolScheme
  | FirstPathSegmentColon
  | InvalidPort string
  | EscapeError string
  | InvalidHostError string
  | Unmodelled

text \<open>
  An error value. \<open>Lib t\<close> is an error made by a library (WebSocket, secure shell, file
  transfer) whose \<^verbatim>\<open>Error()\<close> text is \<open>t\<close>. \<open>Wrap\<close> and \<open>Wrapf\<close> are those of
  \<^verbatim>\<open>github.com/pkg/errors\<close> (from version 0.9, whose wrappers have \<^verbatim>\<open>Unwrap\<close>): the first
  component is the cause that \<^verbatim>\<open>Unwrap\<close> returns.
  \<open>Errorfw\<close> is \<^verbatim>\<open>fmt.Errorf\<close> with a \<^verbatim>\<open>%w\<close> operand (the last component); \<open>Errorv\<close> is
  \<^verbatim>\<open>fmt.Errorf\<close> whose one operand is a slice of errors printed with \<^verbatim>\<open>%v\<close>, which
  \<^verbatim>\<open>Unwrap\<close> does not see. \<open>Panic\<close> is not an error value of Go: it stands for the run-time
  panic of a call through a \<^verbatim>\<open>nil\<close> pointer.
\<close>

datatype err =
    Sentinel sentinel
  | EOF
  | Lib string
  | UrlError url_error
  | Wrap err string
  | Wrapf err string "fmt_arg list"
  | Errorfw string "fmt_arg list" err
  | Errorv string "err list"
  | Panic

text \<open>\<^verbatim>\<open>errors.Is(e, target)\<close> for a sentinel target: walk the \<^verbatim>\<open>Unwrap\<close> chain.\<close>

fun Is :: "err \<Rightarrow> sentinel \<Rightarrow> bool" where
  "Is (Sentinel s) t = (s = t)"
| "Is (Wrap c m) t = Is c t"
| "Is (Wrapf c f as) t = Is c t"
| "Is (Errorfw f as c) t = Is c t"
| "Is EOF t = False"
| "Is (Lib m) t = False"
| "Is (UrlError u) t = False"
| "Is (Errorv f es) t = False"
| "Is Panic t = False"

section \<open>Configuration and results (\<^verbatim>\<open>options.go\<close>)\<close>

text \<open>
  \<^verbatim>\<open>SSHPort\<close> and \<^verbatim>\<open>WaitSeconds\<close> are Go \<^verbatim>\<open>int\<close>s; the code only compares them with zero
  and prints them in decimal, so no arithmetic can overflow and they are modelled as
  integers. \<^verbatim>\<open>Timeout\<close> is a \<^verbatim>\<open>time.Duration\<close>, a count of nanoseconds.
\<close>

record TunnelConfig =
  OrchardBaseURL :: string
  BearerToken :: string
  VMName :: string
  SSHPort :: int
  WaitSeconds :: int
  SSHUsername :: string
  SSHPassword :: string
  Timeout :: int

definition Second :: int where
  "Second = 1000000000"

definition SetDefaults :: "TunnelConfig \<Rightarrow> TunnelConfig" where
  "SetDefaults c =
     (let c1 = (if SSHPort c = 0 then c\<lparr>SSHPort := 22\<rparr> else c);
          c2 = (if WaitSeconds c1 = 0 then c1\<lparr>WaitSeconds := 30\<rparr> else c1)
      in if Timeout c2 = 0 then c2\<lparr>Timeout := 30 * Second\<rparr> else c2)"

record CommandResult =
  ExitCode :: int
  Stdout :: string
  Stderr :: string

record FileUploadOptions =
  RemotePath :: string
  Permissions :: nat
  CreateDirs :: bool

section \<open>The fragment of \<^verbatim>\<open>net/url\<close> and \<^verbatim>\<open>fmt\<close> that \<^verbatim>\<open>buildWebSocketURL\<close> calls\<close>

datatype encoding =
    encodePath
  | encodePathSegment
  | encodeHost
  | encodeUserPassword
  | encodeQueryComponent
  | encodeFragment

text \<open>The byte comparison \<^verbatim>\<open>lo <= c && c <= hi\<close> that the library writes out each time.\<close>

definition between :: "char \<Rightarrow> char \<Rightarrow> char \<Rightarrow> bool" where
  "between lo hi c = (lo \<le> c \<and> c \<le> hi)"

definition is_alpha :: "char \<Rightarrow> bool" where
  "is_alpha c = (between CHR ''a'' CHR ''z'' c \<or> between CHR ''A'' CHR ''Z'' c)"

definition is_digit :: "char \<Rightarrow> bool" where
  "is_digit c = between CHR ''0'' CHR ''9'' c"

text \<open>
  \<^verbatim>\<open>shouldEscape(c, mode)\<close> of \<^verbatim>\<open>net/url\<close>. The fragment mode's own extra cases are left
  out: no caller in this development uses them.
\<close>

definition shouldEscape :: "char \<Rightarrow> encoding \<Rightarrow> bool" where
  "shouldEscape c mode =
     (if is_alpha c \<or> is_digit c then False
      else if mode = encodeHost \<and> c \<in> set ''!$&'()*+,;=:[]<>\"'' then False
      else if c \<in> set ''-_.~'' then False
      else if c \<in> set ''$&+,/:;=?@'' then
        (case mode of
           encodePath \<Rightarrow> c = CHR ''?''
         | encodePathSegment \<Rightarrow> c \<in> set ''/;,?''
         | encodeUserPassword \<Rightarrow> c \<in> set ''@/?:''
         | encodeQueryComponent \<Rightarrow> True
         | encodeFragment \<Rightarrow> False
         | encodeHost \<Rightarrow> True)
      else True)"

definition upperhex :: string where
  "upperhex = ''0123456789ABCDEF''"

definition escape_byte :: "encoding \<Rightarrow> char \<Rightarrow> string" where
  "escape_byte mode c =
     (if shouldEscape c mode then
        (if c = CHR '' '' \<and> mode = encodeQueryComponent then ''+''
         else [CHR ''%'', upperhex ! ((of_char c :: nat) div 16), upperhex ! ((of_char c :: nat) mod 16)])
      else [c])"

text \<open>
  \<^verbatim>\<open>escape(s, mode)\<close>: a first pass counts the bytes to escape and returns \<open>s\<close> itself when
  there are none; the second pass writes \<^verbatim>\<open>%XX\<close> for each of them (\<^verbatim>\<open>c>>4\<close> and
  \<^verbatim>\<open>c&15\<close> index the hexadecimal digits).
\<close>

definition escape :: "string \<Rightarrow> encoding \<Rightarrow> string" where
  "escape s mode =
     (if list_all (\<lambda>c. \<not> shouldEscape c mode) s then s
      else concat (map (escape_byte mode) s))"

definition PathEscape :: "string \<Rightarrow> string" where
  "PathEscape s = escape s encodePathSegment"

definition ishex :: "char \<Rightarrow> bool" where
  "ishex c = (is_digit c \<or> between CHR ''a'' CHR ''f'' c \<or> between CHR ''A'' CHR ''F'' c)"

definition unhex :: "char \<Rightarrow> nat" where
  "unhex c =
     (if is_digit c then of_char c - of_char CHR ''0''
      else if between CHR ''a'' CHR ''f'' c then of_char c - of_char CHR ''a'' + 10
      else if between CHR ''A'' CHR ''F'' c then of_char c - of_char CHR ''A'' + 10
      else 0)"

text \<open>
  \<^verbatim>\<open>unescape(s, mode)\<close> for the path, host and fragment modes: a \<^verbatim>\<open>%\<close> must be followed
  by two hexadecimal digits; in a host only non-ASCII bytes (and \<^verbatim>\<open>%25\<close>) may be escaped
  and every ASCII byte must be one that needs no escaping.
\<close>

fun unescape :: "string \<Rightarrow> encoding \<Rightarrow> url_error + string" where
  "unescape [] mode = Inr []"
| "unescape (c # cs) mode =
     (if c = CHR ''%'' then
        (case cs of
           a # b # rest \<Rightarrow>
             if \<not> ishex a \<or> \<not> ishex b then Inl (EscapeError (take 3 (c # cs)))
             else if mode = encodeHost \<and> unhex a < 8 \<and> [a, b] \<noteq> ''25''
               then Inl (EscapeError [c, a, b])
             else (case unescape rest mode of
                     Inl e \<Rightarrow> Inl e
                   | Inr t \<Rightarrow> Inr (char_of (unhex a * 16 + unhex b) # t))
         | _ \<Rightarrow> Inl (EscapeError (take 3 (c # cs))))
      else if mode = encodeHost \<and> (of_char c :: nat) < 128 \<and> shouldEscape c encodeHost
        then Inl (InvalidHostError [c])
      else (case unescape cs mode of Inl e \<Rightarrow> Inl e | Inr t \<Rightarrow> Inr (c # t)))"

record URL =
  Scheme :: string
  Opaque :: string
  Host :: string
  Path :: string
  RawQuery :: string
  Fragment :: string

definition empty_URL :: URL where
  "empty_URL = \<lparr>Scheme = [], Opaque = [], Host = [], Path = [], RawQuery = [], Fragment = []\<rparr>"

definition stringContainsCTLByte :: "string \<Rightarrow> bool" where
  "stringContainsCTLByte s = list_ex (\<lambda>b. b < CHR '' '' \<or> b = char_of (127 :: nat)) s"

text \<open>\<^verbatim>\<open>getScheme\<close>: \<open>i\<close> is the loop index and the third argument is \<^verbatim>\<open>rawURL[i:]\<close>.\<close>

fun getScheme_loop :: "string \<Rightarrow> nat \<Rightarrow> string \<Rightarrow> url_error + string \<times> string" where
  "getScheme_loop rawURL i [] = Inr ([], rawURL)"
| "getScheme_loop rawURL i (c # cs) =
     (if is_alpha c then getScheme_loop rawURL (Suc i) cs
      else if is_digit c \<or> c = CHR ''+'' \<or> c = CHR ''-'' \<or> c = CHR ''.'' then
        (if i = 0 then Inr ([], rawURL) else getScheme_loop rawURL (Suc i) cs)
      else if c = CHR '':'' then
        (if i = 0 then Inl MissingProtocolScheme else Inr (take i rawURL, cs))
      else Inr ([], rawURL))"

definition getScheme :: "string \<Rightarrow> url_error + string \<times> string" where
  "getScheme rawURL = getScheme_loop rawURL 0 rawURL"

definition lower_byte :: "char \<Rightarrow> char" where
  "lower_byte c =
     (if between CHR ''A'' CHR ''Z'' c then char_of ((of_char c :: nat) + 32) else c)"

text \<open>\<^verbatim>\<open>strings.ToLower\<close> on a scheme, which \<^verbatim>\<open>getScheme\<close> leaves with ASCII bytes only.\<close>

definition ToLower :: "string \<Rightarrow> string" where
  "ToLower s = map lower_byte s"

text \<open>\<^verbatim>\<open>strings.Cut(s, sep)\<close> for a separator of one byte: the text before and after its first occurrence.\<close>

definition Cut :: "string \<Rightarrow> char \<Rightarrow> string \<times> string" where
  "Cut s sep = (takeWhile (\<lambda>c. c \<noteq> sep) s, drop 1 (dropWhile (\<lambda>c. c \<noteq> sep) s))"

definition validOptionalPort :: "string \<Rightarrow> bool" where
  "validOptionalPort port =
     (case port of
        [] \<Rightarrow> True
      | c # ds \<Rightarrow> c = CHR '':'' \<and> list_all is_digit ds)"

text \<open>\<^verbatim>\<open>host[strings.LastIndex(host, ":"):]\<close>, for a host that contains a colon.\<close>

definition from_last_colon :: "string \<Rightarrow> string" where
  "from_last_colon host = CHR '':'' # rev (takeWhile (\<lambda>c. c \<noteq> CHR '':'') (rev host))"

definition parseHost :: "string \<Rightarrow> url_error + string" where
  "parseHost host =
     (if prefix ''['' host then Inl Unmodelled
      else if CHR '':'' \<in> set host \<and> \<not> validOptionalPort (from_last_colon host)
        then Inl (InvalidPort (from_last_colon host))
      else unescape host encodeHost)"

definition parseAuthority :: "string \<Rightarrow> url_error + string" where
  "parseAuthority authority =
     (if CHR ''@'' \<in> set authority then Inl Unmodelled else parseHost authority)"

definition setPath :: "URL \<Rightarrow> string \<Rightarrow> url_error + URL" where
  "setPath u p = (case unescape p encodePath of Inl e \<Rightarrow> Inl e | Inr path \<Rightarrow> Inr (u\<lparr>Path := path\<rparr>))"

text \<open>\<^verbatim>\<open>parse(rawURL, viaRequest = false)\<close>.\<close>

definition parse :: "string \<Rightarrow> url_error + URL" where
  "parse rawURL =
     (if stringContainsCTLByte rawURL then Inl InvalidControlCharacter
      else if rawURL = ''*'' then Inr (empty_URL\<lparr>Path := ''*''\<rparr>)
      else case getScheme rawURL of
        Inl e \<Rightarrow> Inl e
      | Inr (scheme, rest0) \<Rightarrow>
          let url = empty_URL\<lparr>Scheme := ToLower scheme\<rparr>;
              (rest, query) =
                (if suffix ''?'' rest0 \<and> count_list rest0 CHR ''?'' = 1 then (butlast rest0, [])
                 else Cut rest0 CHR ''?'');
              url = url\<lparr>RawQuery := query\<rparr>
          in if \<not> prefix ''/'' rest \<and> Scheme url \<noteq> [] then Inr (url\<lparr>Opaque := rest\<rparr>)
             else if \<not> prefix ''/'' rest \<and> CHR '':'' \<in> set (fst (Cut rest CHR ''/''))
               then Inl FirstPathSegmentColon
             else if (Scheme url \<noteq> [] \<or> \<not> prefix ''///'' rest) \<and> prefix ''//'' rest then
               (let authority = takeWhile (\<lambda>c. c \<noteq> CHR ''/'') (drop 2 rest);
                    rest' = dropWhile (\<lambda>c. c \<noteq> CHR ''/'') (drop 2 rest)
                in case parseAuthority authority of
                     Inl e \<Rightarrow> Inl e
                   | Inr host \<Rightarrow> setPath (url\<lparr>Host := host\<rparr>) rest')
             else setPath url rest)"

text \<open>\<^verbatim>\<open>url.Parse\<close>: the fragment is cut off first and unescaped last.\<close>

definition url_Parse :: "string \<Rightarrow> url_error + URL" where
  "url_Parse rawURL =
     (let (u, frag) = Cut rawURL CHR ''#'' in
      case parse u of
        Inl e \<Rightarrow> Inl e
      | Inr url \<Rightarrow>
          if frag = [] then Inr url
          else (case unescape frag encodeFragment of
                  Inl e \<Rightarrow> Inl e
                | Inr f \<Rightarrow> Inr (url\<lparr>Fragment := f\<rparr>)))"

text \<open>\<^verbatim>\<open>%d\<close> of \<^verbatim>\<open>fmt.Sprintf\<close>: decimal digits, with a minus sign for a negative number.\<close>

fun digits :: "nat \<Rightarrow> string" where
  "digits n = (if n < 10 then [char_of (48 + n)] else digits (n div 10) @ [char_of (48 + n mod 10)])"

declare digits.simps [simp del]

definition Itoa :: "int \<Rightarrow> string" where
  "Itoa i = (if i < 0 then CHR ''-'' # digits (nat (- i)) else digits (nat i))"

section \<open>The tunnel address (\<^verbatim>\<open>tunnel.go\<close>)\<close>

definition buildWebSocketURL :: "TunnelConfig \<Rightarrow> err + string" where
  "buildWebSocketURL config =
     (case url_Parse (OrchardBaseURL config) of
        Inl e \<Rightarrow>
          Inl (Errorfw ''invalid Orchard base URL %q: %w'' [ArgQ (OrchardBaseURL config)] (UrlError e))
      | Inr baseURL \<Rightarrow>
          let scheme = (if Scheme baseURL = ''https'' then ''wss'' else ''ws'');
              wsURL = scheme @ ''://'' @ Host baseURL @ Path baseURL @ ''/vms/''
                      @ PathEscape (VMName config) @ ''/port-forward?port='' @ Itoa (SSHPort config)
          in if WaitSeconds config > 0 then Inr (wsURL @ ''&wait='' @ Itoa (WaitSeconds config))
             else Inr wsURL)"

section \<open>The duplex stream adapter (\<^verbatim>\<open>wsNetConn\<close>)\<close>

type_synonym byte = "8 word"

text \<open>
  The adapter sits on two objects of the WebSocket library, which are its environment.

  A message reader is the \<^verbatim>\<open>io.Reader\<close> that \<^verbatim>\<open>ws.Reader\<close> hands out for one inbound
  message: \<open>pending\<close> are the bytes of the message not read yet. \<^verbatim>\<open>io.Reader\<close> allows an
  implementation to report the end of the data either together with the last bytes
  (\<open>EofWith\<close>) or by a later call that returns no bytes (\<open>EofAfter\<close>); \<open>Broken t\<close> is a
  message whose connection fails with the error \<open>t\<close> once the pending bytes are read.
\<close>

datatype ending = EofAfter | EofWith | Broken string

record msgReader =
  pending :: "byte list"
  ending :: ending

text \<open>
  \<^verbatim>\<open>reader.Read(b)\<close> with \<^verbatim>\<open>len(b) = n\<close>. The result is the pair \<^verbatim>\<open>(b[:k], err)\<close> of the
  bytes stored in the buffer and the error, with the reader after the call.
\<close>

definition reader_Read :: "msgReader \<Rightarrow> nat \<Rightarrow> (byte list \<times> err option) \<times> msgReader" where
  "reader_Read r n =
     (if pending r = [] then
        (([], Some (case ending r of Broken t \<Rightarrow> Lib t | _ \<Rightarrow> EOF)), r)
      else
        let k = min n (length (pending r));
            r' = r\<lparr>pending := drop k (pending r)\<rparr>
        in if pending r' = [] \<and> ending r = EofWith then ((take k (pending r), Some EOF), r')
           else ((take k (pending r), None), r'))"

text \<open>
  The connection \<^verbatim>\<open>*websocket.Conn\<close>: the messages the peer has sent and that no reader
  has been handed out for, the messages written to the peer, the read limit, a fault that
  makes every later read and write fail, what \<^verbatim>\<open>Close\<close> will answer, and whether it was
  closed. The library enforces the read limit on its own; the field only records what
  \<^verbatim>\<open>SetReadLimit\<close> was called with.
\<close>

record websocket_Conn =
  inbound :: "msgReader list"
  outbound :: "byte list list"
  readLimit :: int
  fault :: "string option"
  close_fault :: "string option"
  closed :: bool

text \<open>
  \<^verbatim>\<open>ws.Reader(ctx)\<close> waits for the next message. The call fails when the context is
  cancelled or the connection is closed or broken; with nothing inbound it can only end by
  the cancellation of the context, which is the error returned.
\<close>

definition ws_Reader :: "websocket_Conn \<Rightarrow> bool \<Rightarrow> (err + msgReader) \<times> websocket_Conn" where
  "ws_Reader w cancelled =
     (if cancelled then (Inl (Lib ''context canceled''), w)
      else if closed w then (Inl (Lib ''use of closed network connection''), w)
      else case fault w of
        Some t \<Rightarrow> (Inl (Lib t), w)
      | None \<Rightarrow>
          (case inbound w of
             [] \<Rightarrow> (Inl (Lib ''context canceled''), w)
           | m # ms \<Rightarrow> (Inr m, w\<lparr>inbound := ms\<rparr>)))"


definition ws_Close :: "websocket_Conn \<Rightarrow> err option \<times> websocket_Conn" where
  "ws_Close w = (map_option Lib (close_fault w), w\<lparr>closed := True\<rparr>)"

definition SetReadLimit :: "websocket_Conn \<Rightarrow> int \<Rightarrow> websocket_Conn" where
  "SetReadLimit w n = w\<lparr>readLimit := n\<rparr>"

text \<open>
  The adapter itself. \<open>cancelled\<close> is the state of its own context (\<^verbatim>\<open>ctx\<close> with
  \<^verbatim>\<open>cancel\<close>); \<open>reader\<close> is \<^verbatim>\<open>nil\<close> or the reader of a message not consumed to its end.
  The mutex only serialises calls of \<^verbatim>\<open>Read\<close> and has no state in a sequential model.
\<close>

record wsNetConn =
  ws :: websocket_Conn
  cancelled :: bool
  reader :: "msgReader option"

definition newWSNetConn :: "bool \<Rightarrow> websocket_Conn \<Rightarrow> wsNetConn" where
  "newWSNetConn ctx_done w = \<lparr>ws = w, cancelled = ctx_done, reader = None\<rparr>"

text \<open>
  Lines 75 to 81 of \<^verbatim>\<open>Read\<close>: fetch the next message and read from it. What this first
  read of the new message returns is returned as it is, its error included: an empty
  message, and a reader that reports the end together with the last bytes, make \<^verbatim>\<open>Read\<close>
  return \<^verbatim>\<open>io.EOF\<close> here.
\<close>

definition Read_next :: "wsNetConn \<Rightarrow> nat \<Rightarrow> (byte list \<times> err option) \<times> wsNetConn" where
  "Read_next c n =
     (case ws_Reader (ws c) (cancelled c) of
        (Inl e, w) \<Rightarrow> (([], Some e), c\<lparr>ws := w\<rparr>)
      | (Inr r, w) \<Rightarrow>
          (let (res, r') = reader_Read r n in (res, c\<lparr>ws := w, reader := Some r'\<rparr>)))"

text \<open>\<^verbatim>\<open>Read(b)\<close> with \<^verbatim>\<open>len(b) = n\<close>; the result is \<^verbatim>\<open>(b[:n'], err)\<close>.\<close>

definition Read :: "wsNetConn \<Rightarrow> nat \<Rightarrow> (byte list \<times> err option) \<times> wsNetConn" where
  "Read c n =
     (case reader c of
        Some r \<Rightarrow>
          (let ((data, e), r') = reader_Read r n in
           if e = Some EOF then
             (let c' = c\<lparr>reader := None\<rparr> in
              if length data > 0 then ((data, None), c') else Read_next c' n)
           else if e \<noteq> None then ((data, e), c\<lparr>reader := Some r'\<rparr>)
           else ((data, None), c\<lparr>reader := Some r'\<rparr>))
      | None \<Rightarrow> Read_next c n)"


definition wsNetConn_Close :: "wsNetConn \<Rightarrow> err option \<times> wsNetConn" where
  "wsNetConn_Close c = (let (e, w) = ws_Close (ws c) in (e, c\<lparr>cancelled := True, ws := w\<rparr>))"

text \<open>
  Successive calls of \<^verbatim>\<open>Read\<close> with buffers of the given lengths: what each call stored
  in its buffer, and the adapter afterwards.
\<close>

fun reads :: "wsNetConn \<Rightarrow> nat list \<Rightarrow> byte list list \<times> wsNetConn" where
  "reads c [] = ([], c)"
| "reads c (n # ns) =
     (let ((data, e), c') = Read c n; (rest, c'') = reads c' ns in (data # rest, c''))"


text \<open>The bytes received and not yet returned by \<^verbatim>\<open>Read\<close>, in order.\<close>

definition undelivered :: "wsNetConn \<Rightarrow> byte list" where
  "undelivered c =
     (case reader c of None \<Rightarrow> [] | Some r \<Rightarrow> pending r) @ concat (map pending (inbound (ws c)))"


section \<open>The environment of a session\<close>

text \<open>
  The controller, the secure-shell server and the file-transfer server are outside the
  program. Their answers are the fields of \<open>env\<close>: what \<^verbatim>\<open>websocket.Dial\<close> returns for an
  address and its headers (a connection, or a failure with the status of the HTTP response
  if there was one and the text of the error), what the handshake \<^verbatim>\<open>ssh.NewClientConn\<close>
  answers to a client configuration (\<open>None\<close> is success, otherwise the text of the error),
  and so on for each call the session makes. \<^verbatim>\<open>filepath.Dir\<close> is a parameter too.
\<close>

datatype dial_result = Connected websocket_Conn | DialFailed "int option" string

record ClientConfig =
  User :: string
  Password :: string
  HandshakeTimeout :: int

text \<open>
  What \<^verbatim>\<open>session.Run\<close> returns when it is not \<^verbatim>\<open>nil\<close>: an \<^verbatim>\<open>*ssh.ExitError\<close> with the
  exit status of the remote process, or any other error.
\<close>

datatype run_error = ExitError int | RunFailed string

record env =
  dial :: "string \<Rightarrow> (string \<times> string) list \<Rightarrow> dial_result"
  handshake :: "ClientConfig \<Rightarrow> string option"
  new_session :: "string option"
  run :: "string \<Rightarrow> string \<Rightarrow> run_error option \<times> string \<times> string"
  sftp_new :: "string option"
  sftp_mkdir_all :: "string \<Rightarrow> string option"
  sftp_create :: "string \<Rightarrow> string option"
  sftp_write :: "string \<Rightarrow> string \<Rightarrow> string option"
  sftp_chmod :: "string \<Rightarrow> nat \<Rightarrow> string option"
  sftp_close :: "string option"
  ssh_close :: "string option"
  filepath_Dir :: "string \<Rightarrow> string"

text \<open>
  Every call to the environment is recorded, in order, in a trace that the operations
  pass along: it is how the order of the calls and the release of resources are observed.
\<close>

datatype event =
    Dial string "(string \<times> string) list"
  | Handshake ClientConfig
  | NewSession
  | Run string string
  | CloseSession
  | NewSftp
  | MkdirAll string
  | Create string
  | Copy string string
  | Chmod string nat
  | CloseFile string
  | CloseSftp
  | CloseShell
  | CloseStream

section \<open>The tunnel dialer (\<^verbatim>\<open>tunnel.go\<close>)\<close>

text \<open>The headers of the handshake request: the client identifier, and the token if there is one.\<close>

definition headers :: "TunnelConfig \<Rightarrow> (string \<times> string) list" where
  "headers config =
     [(''User-Agent'', ''provider-orchard/1.0'')]
     @ (if BearerToken config \<noteq> [] then [(''Authorization'', ''Bearer '' @ BearerToken config)]
        else [])"

definition dialWebSocket :: "env \<Rightarrow> TunnelConfig \<Rightarrow> event list \<Rightarrow> (err + wsNetConn) \<times> event list" where
  "dialWebSocket E config tr =
     (case buildWebSocketURL config of
        Inl e \<Rightarrow> (Inl (Wrap e ''failed to build WebSocket URL''), tr)
      | Inr wsURL \<Rightarrow>
          let tr' = tr @ [Dial wsURL (headers config)]
          in case dial E wsURL (headers config) of
               DialFailed resp t \<Rightarrow>
                 (case resp of
                    Some StatusCode \<Rightarrow>
                      (if StatusCode = 404 then
                         Inl (Wrapf (Sentinel ErrVMNotReady) ''VM %q not found (HTTP %d)''
                                [ArgQ (VMName config), ArgD StatusCode])
                       else if StatusCode = 503 then
                         Inl (Wrapf (Sentinel ErrConnectionFailed)
                                ''failed to connect to VM %q worker (HTTP %d)''
                                [ArgQ (VMName config), ArgD StatusCode])
                       else if StatusCode = 400 then
                         Inl (Wrapf (Sentinel ErrConnectionFailed) ''invalid port specified (HTTP %d)''
                                [ArgD StatusCode])
                       else
                         Inl (Wrapf (Sentinel ErrConnectionFailed)
                                ''WebSocket dial failed with status %d: %v'' [ArgD StatusCode, ArgV t]),
                       tr')
                  | None \<Rightarrow> (Inl (Wrap (Sentinel ErrConnectionFailed) t), tr'))
             | Connected w \<Rightarrow> (Inr (newWSNetConn False (SetReadLimit w (- 1))), tr'))"

section \<open>The secure-shell session (\<^verbatim>\<open>session.go\<close>)\<close>

text \<open>
  The shell client and the file-transfer client are handles: all their behaviour is in
  the environment. A field of the session that Go compares with \<^verbatim>\<open>nil\<close> is an option.
\<close>

datatype client = Client

record vmSession =
  config :: TunnelConfig
  wsConn :: "wsNetConn option"
  sshClient :: "client option"
  sftpClient :: "client option"

text \<open>\<^verbatim>\<open>strings.Contains(s, substr)\<close>.\<close>

fun Contains :: "string \<Rightarrow> string \<Rightarrow> bool" where
  "Contains [] substr = (substr = [])"
| "Contains (c # cs) substr = (prefix substr (c # cs) \<or> Contains cs substr)"

text \<open>
  The client configuration of the handshake: password authentication with the configured
  user, and the configured time limit. The host key is not checked.
\<close>

definition sshConfig :: "TunnelConfig \<Rightarrow> ClientConfig" where
  "sshConfig c = \<lparr>User = SSHUsername c, Password = SSHPassword c, HandshakeTimeout = Timeout c\<rparr>"

definition NewVMSession :: "env \<Rightarrow> TunnelConfig \<Rightarrow> event list \<Rightarrow> (err + vmSession) \<times> event list" where
  "NewVMSession E config0 tr =
     (let config = SetDefaults config0 in
      case dialWebSocket E config tr of
        (Inl e, tr1) \<Rightarrow> (Inl e, tr1)
      | (Inr conn, tr1) \<Rightarrow>
          let tr2 = tr1 @ [Handshake (sshConfig config)]
          in case handshake E (sshConfig config) of
               Some t \<Rightarrow>
                 (let (ignored, conn') = wsNetConn_Close conn;
                      tr3 = tr2 @ [CloseStream]
                  in if Contains t ''unable to authenticate''
                     then (Inl (Wrap (Sentinel ErrSSHAuthFailed) t), tr3)
                     else (Inl (Wrap (Lib t) ''failed to establish SSH connection''), tr3))
             | None \<Rightarrow>
                 (Inr \<lparr>config = config, wsConn = Some conn, sshClient = Some Client,
                       sftpClient = None\<rparr>, tr2))"

text \<open>
  \<^verbatim>\<open>ExecuteCommand\<close>: open a channel, run the command with nothing on its standard input,
  capture both outputs, and close the channel on the way out. Go returns the pair of a
  pointer to the result and an error; each is an option here.
\<close>

definition ExecuteCommand ::
  "env \<Rightarrow> vmSession \<Rightarrow> string \<Rightarrow> event list \<Rightarrow> (CommandResult option \<times> err option) \<times> event list" where
  "ExecuteCommand E s command tr =
     (case sshClient s of
        None \<Rightarrow> ((None, Some Panic), tr)
      | Some cl \<Rightarrow>
          (case new_session E of
             Some t \<Rightarrow> ((None, Some (Wrap (Lib t) ''failed to create SSH session'')), tr @ [NewSession])
           | None \<Rightarrow>
               (let (rerr, out, errout) = run E command [];
                    tr' = tr @ [NewSession, Run command [], CloseSession];
                    result = \<lparr>ExitCode = 0, Stdout = out, Stderr = errout\<rparr>
                in case rerr of
                     Some (ExitError status) \<Rightarrow> ((Some (result\<lparr>ExitCode := status\<rparr>), None), tr')
                   | Some (RunFailed t) \<Rightarrow>
                       ((Some result, Some (Wrap (Lib t) ''command execution failed'')), tr')
                   | None \<Rightarrow> ((Some (result\<lparr>ExitCode := 0\<rparr>), None), tr'))))"

text \<open>
  \<^verbatim>\<open>strings.ReplaceAll(s, old, new)\<close> for a non-empty \<open>old\<close>: the occurrences are replaced
  from left to right and do not overlap. (With an empty \<open>old\<close>, which the program never
  passes, \<open>new\<close> is put around every byte.)
\<close>

function ReplaceAll :: "string \<Rightarrow> string \<Rightarrow> string \<Rightarrow> string" where
  "ReplaceAll [] old new = (if old = [] then new else [])"
| "ReplaceAll (c # cs) old new =
     (if old = [] then new @ c # ReplaceAll cs old new
      else if prefix old (c # cs) then new @ ReplaceAll (drop (length old) (c # cs)) old new
      else c # ReplaceAll cs old new)"
  by pat_completeness auto
termination
  by (relation "measure (\<lambda>(s, old, new). length s)") auto

text \<open>The escaping of a value for the shell: \<^verbatim>\<open>strings.ReplaceAll(value, "'", "'\"'\"'")\<close>.\<close>

definition escapedValue :: "string \<Rightarrow> string" where
  "escapedValue v = ReplaceAll v [CHR 0x27] [CHR 0x27, CHR 0x22, CHR 0x27, CHR 0x22, CHR 0x27]"

text \<open>
  The script that \<^verbatim>\<open>ExecuteScript\<close> builds. A Go map is ranged over in an order the
  run time chooses, so the environment variables are given as the list of the entries in
  the order of that iteration.
\<close>

definition scriptBuilder :: "string \<Rightarrow> (string \<times> string) list \<Rightarrow> string" where
  "scriptBuilder script vars =
     ''#!/bin/bash\<newline>set -e\<newline>''
     @ concat (map (\<lambda>(key, v). ''export '' @ key @ ''='' @ [CHR 0x27] @ escapedValue v
                                 @ [CHR 0x27] @ ''\<newline>'') vars)
     @ script"

definition ExecuteScript ::
  "env \<Rightarrow> vmSession \<Rightarrow> string \<Rightarrow> (string \<times> string) list \<Rightarrow> event list
     \<Rightarrow> (CommandResult option \<times> err option) \<times> event list" where
  "ExecuteScript E s script vars tr =
     (case sshClient s of
        None \<Rightarrow> ((None, Some Panic), tr)
      | Some cl \<Rightarrow>
          (case new_session E of
             Some t \<Rightarrow> ((None, Some (Wrap (Lib t) ''failed to create SSH session'')), tr @ [NewSession])
           | None \<Rightarrow>
               (let stdin = scriptBuilder script vars;
                    (rerr, out, errout) = run E ''/bin/bash'' stdin;
                    tr' = tr @ [NewSession, Run ''/bin/bash'' stdin, CloseSession];
                    result = \<lparr>ExitCode = 0, Stdout = out, Stderr = errout\<rparr>
                in case rerr of
                     Some (ExitError status) \<Rightarrow> ((Some (result\<lparr>ExitCode := status\<rparr>), None), tr')
                   | Some (RunFailed t) \<Rightarrow>
                       ((Some result, Some (Wrap (Lib t) ''script execution failed'')), tr')
                   | None \<Rightarrow> ((Some (result\<lparr>ExitCode := 0\<rparr>), None), tr'))))"

definition ensureSFTP :: "env \<Rightarrow> vmSession \<Rightarrow> event list \<Rightarrow> (err option \<times> vmSession) \<times> event list" where
  "ensureSFTP E s tr =
     (if sftpClient s \<noteq> None then ((None, s), tr)
      else case sshClient s of
        None \<Rightarrow> ((Some Panic, s), tr)
      | Some cl \<Rightarrow>
          (case sftp_new E of
             Some t \<Rightarrow> ((Some (Wrap (Sentinel ErrSFTPFailed) t), s), tr @ [NewSftp])
           | None \<Rightarrow> ((None, s\<lparr>sftpClient := Some Client\<rparr>), tr @ [NewSftp])))"

text \<open>
  \<^verbatim>\<open>UploadFile\<close>; \<open>content\<close> is everything the reader delivers. The file is closed on the
  way out of every path that created it. The session comes back because \<^verbatim>\<open>ensureSFTP\<close>
  may have stored the file-transfer client in it.
\<close>

definition UploadFile ::
  "env \<Rightarrow> vmSession \<Rightarrow> string \<Rightarrow> FileUploadOptions \<Rightarrow> event list
     \<Rightarrow> (err option \<times> vmSession) \<times> event list" where
  "UploadFile E s0 content opts tr0 =
     (case ensureSFTP E s0 tr0 of
        ((Some e, s), tr) \<Rightarrow> ((Some e, s), tr)
      | ((None, s), tr) \<Rightarrow>
          let dir = filepath_Dir E (RemotePath opts);
              tr1 = (if CreateDirs opts then tr @ [MkdirAll dir] else tr)
          in case (if CreateDirs opts then sftp_mkdir_all E dir else None) of
               Some t \<Rightarrow>
                 ((Some (Wrapf (Sentinel ErrSFTPFailed) ''failed to create directory %s: %v''
                           [ArgS dir, ArgV t]), s), tr1)
             | None \<Rightarrow>
                 (case sftp_create E (RemotePath opts) of
                    Some t \<Rightarrow>
                      ((Some (Wrapf (Sentinel ErrSFTPFailed) ''failed to create file %s: %v''
                                [ArgS (RemotePath opts), ArgV t]), s),
                       tr1 @ [Create (RemotePath opts)])
                  | None \<Rightarrow>
                      (let tr2 = tr1 @ [Create (RemotePath opts), Copy (RemotePath opts) content]
                       in case sftp_write E (RemotePath opts) content of
                            Some t \<Rightarrow>
                              ((Some (Wrap (Sentinel ErrSFTPFailed) ''failed to write file content''), s),
                               tr2 @ [CloseFile (RemotePath opts)])
                          | None \<Rightarrow>
                              if Permissions opts \<noteq> 0 then
                                (case sftp_chmod E (RemotePath opts) (Permissions opts) of
                                   Some t \<Rightarrow>
                                     ((Some (Wrap (Sentinel ErrSFTPFailed)
                                               ''failed to set file permissions''), s),
                                      tr2 @ [Chmod (RemotePath opts) (Permissions opts),
                                             CloseFile (RemotePath opts)])
                                 | None \<Rightarrow>
                                     ((None, s),
                                      tr2 @ [Chmod (RemotePath opts) (Permissions opts),
                                             CloseFile (RemotePath opts)]))
                              else ((None, s), tr2 @ [CloseFile (RemotePath opts)]))))"

definition UploadBytes ::
  "env \<Rightarrow> vmSession \<Rightarrow> string \<Rightarrow> FileUploadOptions \<Rightarrow> event list
     \<Rightarrow> (err option \<times> vmSession) \<times> event list" where
  "UploadBytes E s data opts tr = UploadFile E s data opts tr"

text \<open>
  \<^verbatim>\<open>vmSession.Close\<close>. The three steps are written one after the other as in the source;
  \<open>errs\<close> is the slice of the errors collected so far.
\<close>

definition close_sftp :: "env \<Rightarrow> vmSession \<Rightarrow> err list \<times> event list \<Rightarrow> err list \<times> event list" where
  "close_sftp E s st =
     (case sftpClient s of
        None \<Rightarrow> st
      | Some cl \<Rightarrow>
          (case sftp_close E of
             Some t \<Rightarrow> (fst st @ [Lib t], snd st @ [CloseSftp])
           | None \<Rightarrow> (fst st, snd st @ [CloseSftp])))"

definition close_shell :: "env \<Rightarrow> vmSession \<Rightarrow> err list \<times> event list \<Rightarrow> err list \<times> event list" where
  "close_shell E s st =
     (case sshClient s of
        None \<Rightarrow> st
      | Some cl \<Rightarrow>
          (case ssh_close E of
             Some t \<Rightarrow> (fst st @ [Lib t], snd st @ [CloseShell])
           | None \<Rightarrow> (fst st, snd st @ [CloseShell])))"

definition close_stream :: "vmSession \<Rightarrow> err list \<times> event list \<Rightarrow> err list \<times> event list" where
  "close_stream s st =
     (case wsConn s of
        None \<Rightarrow> st
      | Some conn \<Rightarrow>
          (case fst (wsNetConn_Close conn) of
             Some e \<Rightarrow> (fst st @ [e], snd st @ [CloseStream])
           | None \<Rightarrow> (fst st, snd st @ [CloseStream])))"

definition vmSession_Close :: "env \<Rightarrow> vmSession \<Rightarrow> event list \<Rightarrow> err option \<times> event list" where
  "vmSession_Close E s tr =
     (let (errs, tr') = close_stream s (close_shell E s (close_sftp E s ([], tr)))
      in if length errs > 0 then (Some (Errorv ''errors during close: %v'' errs), tr')
         else (None, tr'))"

section \<open>The facade (\<^verbatim>\<open>session.go\<close>)\<close>

text \<open>
  \<^verbatim>\<open>defer session.Close()\<close> runs when the function returns and its result is dropped: the
  model calls \<open>vmSession_Close\<close> last on every path after the session exists and keeps only
  its trace. The deferred call sees the session as the calls before it left it.
\<close>

definition RunCloudInit ::
  "env \<Rightarrow> TunnelConfig \<Rightarrow> string \<Rightarrow> (string \<times> string) list \<Rightarrow> event list
     \<Rightarrow> (CommandResult option \<times> err option) \<times> event list" where
  "RunCloudInit E cfg script vars tr =
     (case NewVMSession E cfg tr of
        (Inl e, tr1) \<Rightarrow> ((None, Some e), tr1)
      | (Inr session, tr1) \<Rightarrow>
          (let (res, tr2) = ExecuteScript E session script vars tr1;
               (ignored, tr3) = vmSession_Close E session tr2
           in (res, tr3)))"

definition scriptPath :: string where
  "scriptPath = ''/tmp/cloudinit-script.sh''"

definition cmdBuilder :: "(string \<times> string) list \<Rightarrow> string" where
  "cmdBuilder vars =
     concat (map (\<lambda>(key, v). ''export '' @ key @ ''='' @ [CHR 0x27] @ escapedValue v
                                 @ [CHR 0x27] @ ''; '') vars)
     @ scriptPath"

definition UploadAndRunScript ::
  "env \<Rightarrow> TunnelConfig \<Rightarrow> string \<Rightarrow> (string \<times> string) list \<Rightarrow> event list
     \<Rightarrow> (CommandResult option \<times> err option) \<times> event list" where
  "UploadAndRunScript E cfg script vars tr =
     (case NewVMSession E cfg tr of
        (Inl e, tr1) \<Rightarrow> ((None, Some e), tr1)
      | (Inr session0, tr1) \<Rightarrow>
          (case UploadBytes E session0 script
                  \<lparr>RemotePath = scriptPath, Permissions = 493, CreateDirs = True\<rparr> tr1 of
             ((Some e, session), tr2) \<Rightarrow>
               (let (ignored, tr3) = vmSession_Close E session tr2
                in ((None, Some (Wrap e ''failed to upload script'')), tr3))
           | ((None, session), tr2) \<Rightarrow>
               (let (res, tr3) = ExecuteCommand E session (cmdBuilder vars) tr2;
                    (ignored, tr4) = vmSession_Close E session tr3
                in (res, tr4))))"


text \<open>
  What the specification calls the collected failures of a close: the errors of the
  closes that are attempted, in the order file-transfer client, shell client, stream.
\<close>

definition close_failures :: "env \<Rightarrow> vmSession \<Rightarrow> err list" where
  "close_failures E s =
     (case sftpClient s of
        None \<Rightarrow> []
      | Some cl \<Rightarrow> (case sftp_close E of None \<Rightarrow> [] | Some t \<Rightarrow> [Lib t]))
     @ (case sshClient s of
          None \<Rightarrow> []
        | Some cl \<Rightarrow> (case ssh_close E of None \<Rightarrow> [] | Some t \<Rightarrow> [Lib t]))
     @ (case wsConn s of
          None \<Rightarrow> []
        | Some conn \<Rightarrow> (case close_fault (ws conn) of None \<Rightarrow> [] | Some t \<Rightarrow> [Lib t]))"

section \<open>Concrete inputs\<close>

definition example_config :: "string \<Rightarrow> string \<Rightarrow> int \<Rightarrow> int \<Rightarrow> TunnelConfig" where
  "example_config base vm port wait =
     \<lparr>OrchardBaseURL = base, BearerToken = [], VMName = vm, SSHPort = port, WaitSeconds = wait,
      SSHUsername = ''admin'', SSHPassword = ''admin'', Timeout = 0\<rparr>"

text \<open>A connection that has just been opened, and the adapter around it.\<close>

definition fresh_Conn :: websocket_Conn where
  "fresh_Conn = \<lparr>inbound = [], outbound = [], readLimit = 32768, fault = None,
                 close_fault = None, closed = False\<rparr>"

definition fresh_wsNetConn :: wsNetConn where
  "fresh_wsNetConn = newWSNetConn False (SetReadLimit fresh_Conn (- 1))"

text \<open>
  An environment in which every call succeeds: the controller connects, the server
  accepts the password, the command prints \<^verbatim>\<open>ok\<close> and exits with status zero.
\<close>

definition example_env :: env where
  "example_env =
     \<lparr>dial = (\<lambda>url hs. Connected fresh_Conn),
      handshake = (\<lambda>c. None),
      new_session = None,
      run = (\<lambda>command stdin. (None, ''ok'', [])),
      sftp_new = None,
      sftp_mkdir_all = (\<lambda>dir. None),
      sftp_create = (\<lambda>path. None),
      sftp_write = (\<lambda>path data. None),
      sftp_chmod = (\<lambda>path mode. None),
      sftp_close = None,
      ssh_close = None,
      filepath_Dir = (\<lambda>path. ''/tmp'')\<rparr>"

definition local_config :: TunnelConfig where
  "local_config = example_config ''http://localhost:6120/v1'' ''test-vm'' 22 30"

definition example_session :: vmSession where
  "example_session =
     \<lparr>config = SetDefaults local_config, wsConn = Some fresh_wsNetConn,
      sshClient = Some Client, sftpClient = None\<rparr>"

text \<open>
  The same environment, except that the deadline of the context passes while the dial is
  under way: the dial fails with no response and the text of \<^verbatim>\<open>context.DeadlineExceeded\<close>.
\<close>

definition deadline_env :: env where
  "deadline_env = example_env\<lparr>dial := \<lambda>url hs. DialFailed None ''context deadline exceeded''\<rparr>"

section \<open>The tunnel address\<close>




















section \<open>The duplex stream adapter\<close>



text \<open>
  One call of \<^verbatim>\<open>Read\<close> takes what it returns from the front of the undelivered bytes and
  leaves the rest as it was, whatever the state of the adapter.
\<close>

lemma Read_undelivered:
  "Read c n = ((data, e), c') \<Longrightarrow> undelivered c = data @ undelivered c' \<and> length data \<le> n"
  by (auto simp: Read_def Read_next_def reader_Read_def ws_Reader_def undelivered_def Let_def
           split: option.splits if_splits sum.splits prod.splits list.splits ending.splits)

lemma reads_undelivered:
  "reads c ns = (chunks, c') \<Longrightarrow> undelivered c = concat chunks @ undelivered c'"
proof (induction ns arbitrary: c chunks c')
  case Nil
  then show ?case by simp
next
  case (Cons n ns)
  obtain data e c1 where r: "Read c n = ((data, e), c1)"
    by (metis prod.exhaust)
  obtain rest c2 where rs: "reads c1 ns = (rest, c2)"
    by (metis prod.exhaust)
  from Cons.prems r rs have "chunks = data # rest" "c' = c2" by simp_all
  with Cons.IH [OF rs] Read_undelivered [OF r] show ?case by simp
qed









section \<open>The synthesized script\<close>

lemma ReplaceAll_byte:
  "ReplaceAll s [old] new = concat (map (\<lambda>c. if c = old then new else [c]) s)"
  by (induction s) auto

lemma escapedValue_concat:
  "escapedValue v =
     concat (map (\<lambda>c. if c = CHR 0x27 then [CHR 0x27, CHR 0x22, CHR 0x27, CHR 0x22, CHR 0x27]
                        else [c]) v)"
  by (simp add: escapedValue_def ReplaceAll_byte)

lemma scriptBuilder_lines:
  "scriptBuilder script vars =
     concat (map (\<lambda>line. line @ ''\<newline>'')
               ([''#!/bin/bash'', ''set -e'']
                @ map (\<lambda>(key, v). ''export '' @ key @ ''='' @ [CHR 0x27] @ escapedValue v
                                     @ [CHR 0x27]) vars))
     @ script"
  by (simp add: scriptBuilder_def comp_def case_prod_unfold)

lemma ExecuteScript_trace:
  assumes "sshClient s \<noteq> None" "new_session E = None"
  shows "snd (ExecuteScript E s script vars tr)
           = tr @ [NewSession, Run ''/bin/bash'' (scriptBuilder script vars), CloseSession]"
  using assms
  by (auto simp: ExecuteScript_def Let_def split: option.splits prod.splits run_error.splits)

lemma ExecuteScript_ok:
  assumes "sshClient s \<noteq> None" "new_session E = None"
    and "run E ''/bin/bash'' (scriptBuilder script vars) = (None, out, errout)"
  shows "fst (ExecuteScript E s script vars tr)
           = (Some \<lparr>ExitCode = 0, Stdout = out, Stderr = errout\<rparr>, None)"
  using assms by (auto simp: ExecuteScript_def)

text \<open>
  Claim C5, as the code has it. The value \<^verbatim>\<open>'\<close> is escaped to the five characters
  \<^verbatim>\<open>'"'"'\<close>, not to four.
\<close>

theorem escapedValue_counterexample:
  "escapedValue [CHR 0x27] = [CHR 0x27, CHR 0x22, CHR 0x27, CHR 0x22, CHR 0x27]
   \<and> length (escapedValue [CHR 0x27]) \<noteq> 4"
  by (simp add: escapedValue_def)

text \<open>
  Claim C5, amended. The text that \<^verbatim>\<open>ExecuteScript\<close> builds is the line \<^verbatim>\<open>#!/bin/bash\<close>,
  the line \<^verbatim>\<open>set -e\<close>, one line \<^verbatim>\<open>export NAME='escaped-value'\<close> for each entry of the
  environment in the order of the iteration, and then the script unchanged. In an escaped
  value every single quote is replaced by the five characters \<^verbatim>\<open>'"'"'\<close> (close the quote, a
  single quote inside double quotes, open the quote again) and every other character is
  kept. On a session with its shell client whose channel opens, the only calls are the
  opening of the channel, one run of \<^verbatim>\<open>/bin/bash\<close> with that text as standard input, and the
  close of the channel: nothing is uploaded; the result is what that run gives.
\<close>

theorem script_synthesis:
  "(\<forall>v. escapedValue v =
          concat (map (\<lambda>c. if c = CHR 0x27 then [CHR 0x27, CHR 0x22, CHR 0x27, CHR 0x22, CHR 0x27]
                             else [c]) v))
   \<and> (\<forall>script vars.
         scriptBuilder script vars =
           concat (map (\<lambda>line. line @ ''\<newline>'')
                    ([''#!/bin/bash'', ''set -e'']
                     @ map (\<lambda>(key, v). ''export '' @ key @ ''='' @ [CHR 0x27] @ escapedValue v
                                          @ [CHR 0x27]) vars))
           @ script)
   \<and> (\<forall>E s script vars tr.
         sshClient s \<noteq> None \<and> new_session E = None \<longrightarrow>
           snd (ExecuteScript E s script vars tr)
             = tr @ [NewSession, Run ''/bin/bash'' (scriptBuilder script vars), CloseSession])
   \<and> (\<forall>E s script vars tr out errout.
         sshClient s \<noteq> None \<and> new_session E = None
         \<and> run E ''/bin/bash'' (scriptBuilder script vars) = (None, out, errout) \<longrightarrow>
           fst (ExecuteScript E s script vars tr)
             = (Some \<lparr>ExitCode = 0, Stdout = out, Stderr = errout\<rparr>, None))"
proof (intro conjI allI impI)
  fix v
  show "escapedValue v =
          concat (map (\<lambda>c. if c = CHR 0x27 then [CHR 0x27, CHR 0x22, CHR 0x27, CHR 0x22, CHR 0x27]
                             else [c]) v)"
    by (rule escapedValue_concat)
next
  fix script vars
  show "scriptBuilder script vars =
           concat (map (\<lambda>line. line @ ''\<newline>'')
                    ([''#!/bin/bash'', ''set -e'']
                     @ map (\<lambda>(key, v). ''export '' @ key @ ''='' @ [CHR 0x27] @ escapedValue v
                                          @ [CHR 0x27]) vars))
           @ script"
    by (rule scriptBuilder_lines)
next
  fix E :: env and s :: vmSession and script vars tr
  assume "sshClient s \<noteq> None \<and> new_session E = None"
  then show "snd (ExecuteScript E s script vars tr)
             = tr @ [NewSession, Run ''/bin/bash'' (scriptBuilder script vars), CloseSession]"
    by (simp add: ExecuteScript_trace)
next
  fix E :: env and s :: vmSession and script vars tr out errout
  assume "sshClient s \<noteq> None \<and> new_session E = None
         \<and> run E ''/bin/bash'' (scriptBuilder script vars) = (None, out, errout)"
  then show "fst (ExecuteScript E s script vars tr)
             = (Some \<lparr>ExitCode = 0, Stdout = out, Stderr = errout\<rparr>, None)"
    by (simp add: ExecuteScript_ok)
qed

theorem script_synthesis_witness:
  "sshClient example_session \<noteq> None \<and> new_session example_env = None
   \<and> scriptBuilder ''echo $MY_VAR'' [(''MY_VAR'', ''it's'')]
       = ''#!/bin/bash\<newline>set -e\<newline>export MY_VAR='' @ [CHR 0x27] @ ''it''
         @ [CHR 0x27, CHR 0x22, CHR 0x27, CHR 0x22, CHR 0x27] @ ''s'' @ [CHR 0x27]
         @ ''\<newline>echo $MY_VAR''
   \<and> ExecuteScript example_env example_session ''echo $MY_VAR'' [(''MY_VAR'', ''it's'')] []
       = ((Some \<lparr>ExitCode = 0, Stdout = ''ok'', Stderr = []\<rparr>, None),
          [NewSession,
           Run ''/bin/bash'' (scriptBuilder ''echo $MY_VAR'' [(''MY_VAR'', ''it's'')]),
           CloseSession])"
proof -
  have s: "sshClient example_session \<noteq> None \<and> new_session example_env = None"
    by (simp add: example_session_def example_env_def)
  have r: "sshClient example_session \<noteq> None \<and> new_session example_env = None
      \<and> run example_env ''/bin/bash'' (scriptBuilder ''echo $MY_VAR'' [(''MY_VAR'', ''it's'')])
          = (None, ''ok'', [])"
    by (simp add: example_session_def example_env_def)
  have b: "scriptBuilder ''echo $MY_VAR'' [(''MY_VAR'', ''it's'')]
       = ''#!/bin/bash\<newline>set -e\<newline>export MY_VAR='' @ [CHR 0x27] @ ''it''
         @ [CHR 0x27, CHR 0x22, CHR 0x27, CHR 0x22, CHR 0x27] @ ''s'' @ [CHR 0x27]
         @ ''\<newline>echo $MY_VAR''"
    by code_simp
  note T = script_synthesis [THEN conjunct2, THEN conjunct2]
  from T [THEN conjunct1, rule_format, OF s, of "''echo $MY_VAR''" "[(''MY_VAR'', ''it's'')]" "[]"]
  have t: "snd (ExecuteScript example_env example_session ''echo $MY_VAR'' [(''MY_VAR'', ''it's'')] [])
      = [NewSession,
         Run ''/bin/bash'' (scriptBuilder ''echo $MY_VAR'' [(''MY_VAR'', ''it's'')]),
         CloseSession]"
    by simp
  from T [THEN conjunct2, rule_format, OF r, of "[]"]
  have f: "fst (ExecuteScript example_env example_session ''echo $MY_VAR'' [(''MY_VAR'', ''it's'')] [])
      = (Some \<lparr>ExitCode = 0, Stdout = ''ok'', Stderr = []\<rparr>, None)"
    by simp
  from s b t f show ?thesis
    by (simp add: prod_eq_iff)
qed

section \<open>Command and script execution\<close>

lemma ExecuteCommand_exit:
  assumes "sshClient s \<noteq> None" "new_session E = None"
    and "run E command [] = (Some (ExitError status), out, errout)"
  shows "fst (ExecuteCommand E s command tr)
           = (Some \<lparr>ExitCode = status, Stdout = out, Stderr = errout\<rparr>, None)"
  using assms by (auto simp: ExecuteCommand_def)

lemma ExecuteScript_exit:
  assumes "sshClient s \<noteq> None" "new_session E = None"
    and "run E ''/bin/bash'' (scriptBuilder script vars) = (Some (ExitError status), out, errout)"
  shows "fst (ExecuteScript E s script vars tr)
           = (Some \<lparr>ExitCode = status, Stdout = out, Stderr = errout\<rparr>, None)"
  using assms by (auto simp: ExecuteScript_def)

lemma ExecuteCommand_error_iff:
  assumes "sshClient s \<noteq> None"
  shows "snd (fst (ExecuteCommand E s command tr)) \<noteq> None
         \<longleftrightarrow> new_session E \<noteq> None \<or> (\<exists>t. fst (run E command []) = Some (RunFailed t))"
  using assms
  by (auto simp: ExecuteCommand_def Let_def split: option.splits prod.splits run_error.splits)

lemma ExecuteScript_error_iff:
  assumes "sshClient s \<noteq> None"
  shows "snd (fst (ExecuteScript E s script vars tr)) \<noteq> None
         \<longleftrightarrow> new_session E \<noteq> None
             \<or> (\<exists>t. fst (run E ''/bin/bash'' (scriptBuilder script vars)) = Some (RunFailed t))"
  using assms
  by (auto simp: ExecuteScript_def Let_def split: option.splits prod.splits run_error.splits)

text \<open>
  Claim C3. On a session that has its shell client, when the channel opens and the remote
  process ends with an exit status, \<^verbatim>\<open>ExecuteCommand\<close> and \<^verbatim>\<open>ExecuteScript\<close> return no
  error and a result holding that status and both captured outputs. They return an error
  exactly when the channel cannot be opened or the run fails with an error that is not an
  exit status.
\<close>

theorem exit_status_is_a_result:
  "(\<forall>E s command tr status out errout.
      sshClient s \<noteq> None \<and> new_session E = None
      \<and> run E command [] = (Some (ExitError status), out, errout) \<longrightarrow>
        fst (ExecuteCommand E s command tr)
          = (Some \<lparr>ExitCode = status, Stdout = out, Stderr = errout\<rparr>, None))
   \<and> (\<forall>E s script vars tr status out errout.
      sshClient s \<noteq> None \<and> new_session E = None
      \<and> run E ''/bin/bash'' (scriptBuilder script vars) = (Some (ExitError status), out, errout) \<longrightarrow>
        fst (ExecuteScript E s script vars tr)
          = (Some \<lparr>ExitCode = status, Stdout = out, Stderr = errout\<rparr>, None))
   \<and> (\<forall>E s command tr. sshClient s \<noteq> None \<longrightarrow>
        (snd (fst (ExecuteCommand E s command tr)) \<noteq> None
         \<longleftrightarrow> new_session E \<noteq> None \<or> (\<exists>t. fst (run E command []) = Some (RunFailed t))))
   \<and> (\<forall>E s script vars tr. sshClient s \<noteq> None \<longrightarrow>
        (snd (fst (ExecuteScript E s script vars tr)) \<noteq> None
         \<longleftrightarrow> new_session E \<noteq> None
             \<or> (\<exists>t. fst (run E ''/bin/bash'' (scriptBuilder script vars)) = Some (RunFailed t))))"
proof (intro conjI allI impI)
  fix E :: env and s :: vmSession and command tr status out errout
  assume "sshClient s \<noteq> None \<and> new_session E = None
      \<and> run E command [] = (Some (ExitError status), out, errout)"
  then show "fst (ExecuteCommand E s command tr)
          = (Some \<lparr>ExitCode = status, Stdout = out, Stderr = errout\<rparr>, None)"
    by (simp add: ExecuteCommand_exit)
next
  fix E :: env and s :: vmSession and script vars tr status out errout
  assume "sshClient s \<noteq> None \<and> new_session E = None
      \<and> run E ''/bin/bash'' (scriptBuilder script vars) = (Some (ExitError status), out, errout)"
  then show "fst (ExecuteScript E s script vars tr)
          = (Some \<lparr>ExitCode = status, Stdout = out, Stderr = errout\<rparr>, None)"
    by (simp add: ExecuteScript_exit)
next
  fix E :: env and s :: vmSession and command tr
  assume "sshClient s \<noteq> None"
  then show "snd (fst (ExecuteCommand E s command tr)) \<noteq> None
         \<longleftrightarrow> new_session E \<noteq> None \<or> (\<exists>t. fst (run E command []) = Some (RunFailed t))"
    by (rule ExecuteCommand_error_iff)
next
  fix E :: env and s :: vmSession and script vars tr
  assume "sshClient s \<noteq> None"
  then show "snd (fst (ExecuteScript E s script vars tr)) \<noteq> None
         \<longleftrightarrow> new_session E \<noteq> None
             \<or> (\<exists>t. fst (run E ''/bin/bash'' (scriptBuilder script vars)) = Some (RunFailed t))"
    by (rule ExecuteScript_error_iff)
qed

theorem exit_status_is_a_result_witness:
  "sshClient example_session \<noteq> None
   \<and> new_session (example_env\<lparr>run := \<lambda>c i. (Some (ExitError 42), ''hello\<newline>'', [])\<rparr>) = None
   \<and> fst (ExecuteCommand (example_env\<lparr>run := \<lambda>c i. (Some (ExitError 42), ''hello\<newline>'', [])\<rparr>)
             example_session ''echo hello; exit 42'' [])
       = (Some \<lparr>ExitCode = 42, Stdout = ''hello\<newline>'', Stderr = []\<rparr>, None)
   \<and> fst (ExecuteScript (example_env\<lparr>run := \<lambda>c i. (Some (ExitError 42), ''hello\<newline>'', [])\<rparr>)
             example_session ''echo hello; exit 42'' [] [])
       = (Some \<lparr>ExitCode = 42, Stdout = ''hello\<newline>'', Stderr = []\<rparr>, None)
   \<and> snd (fst (ExecuteCommand (example_env\<lparr>run := \<lambda>c i. (Some (ExitError 42), ''hello\<newline>'', [])\<rparr>)
                  example_session ''echo hello; exit 42'' [])) = None
   \<and> snd (fst (ExecuteScript (example_env\<lparr>new_session := Some ''open failed''\<rparr>)
                  example_session ''exit 42'' [] [])) \<noteq> None"
proof -
  let ?E = "example_env\<lparr>run := \<lambda>c i. (Some (ExitError 42), ''hello\<newline>'', [])\<rparr>"
  have s: "sshClient example_session \<noteq> None"
    by (simp add: example_session_def)
  have n: "new_session ?E = None"
    by (simp add: example_env_def)
  have r: "run ?E ''echo hello; exit 42'' [] = (Some (ExitError 42), ''hello\<newline>'', [])"
    "run ?E ''/bin/bash'' (scriptBuilder ''echo hello; exit 42'' [])
       = (Some (ExitError 42), ''hello\<newline>'', [])"
    by simp_all
  have nf: "\<not> (new_session ?E \<noteq> None \<or> (\<exists>t. fst (run ?E ''echo hello; exit 42'' []) = Some (RunFailed t)))"
    using n by simp
  have c: "fst (ExecuteCommand ?E example_session ''echo hello; exit 42'' [])
       = (Some \<lparr>ExitCode = 42, Stdout = ''hello\<newline>'', Stderr = []\<rparr>, None)"
    by (rule exit_status_is_a_result [THEN conjunct1, rule_format]) (simp add: s n)
  have x: "fst (ExecuteScript ?E example_session ''echo hello; exit 42'' [] [])
       = (Some \<lparr>ExitCode = 42, Stdout = ''hello\<newline>'', Stderr = []\<rparr>, None)"
    by (rule exit_status_is_a_result [THEN conjunct2, THEN conjunct1, rule_format]) (simp add: s n)
  have e: "snd (fst (ExecuteCommand ?E example_session ''echo hello; exit 42'' [])) = None"
    using exit_status_is_a_result [THEN conjunct2, THEN conjunct2, THEN conjunct1, rule_format, OF s,
            of ?E "''echo hello; exit 42''" "[]"] nf
    by simp
  have o: "new_session (example_env\<lparr>new_session := Some ''open failed''\<rparr>) \<noteq> None"
    by simp
  have g: "snd (fst (ExecuteScript (example_env\<lparr>new_session := Some ''open failed''\<rparr>)
                  example_session ''exit 42'' [] [])) \<noteq> None"
    using exit_status_is_a_result [THEN conjunct2, THEN conjunct2, THEN conjunct2, rule_format, OF s,
            of "example_env\<lparr>new_session := Some ''open failed''\<rparr>" "''exit 42''" "[]" "[]"] o
    by simp
  from s n c x e g show ?thesis by simp
qed

section \<open>Dial failures\<close>

lemma dialWebSocket_failed:
  assumes "buildWebSocketURL cfg = Inr wsURL" "dial E wsURL (headers cfg) = DialFailed resp t"
  shows "dialWebSocket E cfg tr =
           (Inl (case resp of
                   None \<Rightarrow> Wrap (Sentinel ErrConnectionFailed) t
                 | Some status \<Rightarrow>
                     if status = 404 then
                       Wrapf (Sentinel ErrVMNotReady) ''VM %q not found (HTTP %d)''
                         [ArgQ (VMName cfg), ArgD status]
                     else if status = 503 then
                       Wrapf (Sentinel ErrConnectionFailed)
                         ''failed to connect to VM %q worker (HTTP %d)''
                         [ArgQ (VMName cfg), ArgD status]
                     else if status = 400 then
                       Wrapf (Sentinel ErrConnectionFailed) ''invalid port specified (HTTP %d)''
                         [ArgD status]
                     else
                       Wrapf (Sentinel ErrConnectionFailed)
                         ''WebSocket dial failed with status %d: %v'' [ArgD status, ArgV t]),
            tr @ [Dial wsURL (headers cfg)])"
  using assms by (simp add: dialWebSocket_def Let_def split: option.splits)

text \<open>
  Claim C4. When the address was built and the dial fails, \<^verbatim>\<open>dialWebSocket\<close> returns an
  error. With a response of status 404 the error wraps \<^verbatim>\<open>ErrVMNotReady\<close>, carries the
  target and the status as the operands of its message, and does not match
  \<^verbatim>\<open>ErrConnectionFailed\<close>. With status 503 (the worker), status 400 (the port), any other
  status or no response at all the error wraps \<^verbatim>\<open>ErrConnectionFailed\<close> and does not match
  \<^verbatim>\<open>ErrVMNotReady\<close>; in the last two cases it carries the text of the dial error.
\<close>

theorem dial_failure_classification:
  "\<forall>E cfg tr wsURL resp t.
      buildWebSocketURL cfg = Inr wsURL \<and> dial E wsURL (headers cfg) = DialFailed resp t \<longrightarrow>
        (\<exists>e. fst (dialWebSocket E cfg tr) = Inl e
           \<and> (resp = Some 404 \<longrightarrow>
                 e = Wrapf (Sentinel ErrVMNotReady) ''VM %q not found (HTTP %d)''
                       [ArgQ (VMName cfg), ArgD 404]
                 \<and> Is e ErrVMNotReady \<and> \<not> Is e ErrConnectionFailed)
           \<and> (resp = Some 503 \<longrightarrow>
                 e = Wrapf (Sentinel ErrConnectionFailed)
                       ''failed to connect to VM %q worker (HTTP %d)''
                       [ArgQ (VMName cfg), ArgD 503])
           \<and> (resp = Some 400 \<longrightarrow>
                 e = Wrapf (Sentinel ErrConnectionFailed) ''invalid port specified (HTTP %d)''
                       [ArgD 400])
           \<and> (\<forall>status. resp = Some status \<and> status \<noteq> 404 \<and> status \<noteq> 503 \<and> status \<noteq> 400 \<longrightarrow>
                 e = Wrapf (Sentinel ErrConnectionFailed)
                       ''WebSocket dial failed with status %d: %v'' [ArgD status, ArgV t])
           \<and> (resp = None \<longrightarrow> e = Wrap (Sentinel ErrConnectionFailed) t)
           \<and> (resp \<noteq> Some 404 \<longrightarrow> Is e ErrConnectionFailed \<and> \<not> Is e ErrVMNotReady))"
proof (intro allI impI)
  fix E :: env and cfg :: TunnelConfig and tr wsURL resp t
  assume h: "buildWebSocketURL cfg = Inr wsURL \<and> dial E wsURL (headers cfg) = DialFailed resp t"
  show "\<exists>e. fst (dialWebSocket E cfg tr) = Inl e
           \<and> (resp = Some 404 \<longrightarrow>
                 e = Wrapf (Sentinel ErrVMNotReady) ''VM %q not found (HTTP %d)''
                       [ArgQ (VMName cfg), ArgD 404]
                 \<and> Is e ErrVMNotReady \<and> \<not> Is e ErrConnectionFailed)
           \<and> (resp = Some 503 \<longrightarrow>
                 e = Wrapf (Sentinel ErrConnectionFailed)
                       ''failed to connect to VM %q worker (HTTP %d)''
                       [ArgQ (VMName cfg), ArgD 503])
           \<and> (resp = Some 400 \<longrightarrow>
                 e = Wrapf (Sentinel ErrConnectionFailed) ''invalid port specified (HTTP %d)''
                       [ArgD 400])
           \<and> (\<forall>status. resp = Some status \<and> status \<noteq> 404 \<and> status \<noteq> 503 \<and> status \<noteq> 400 \<longrightarrow>
                 e = Wrapf (Sentinel ErrConnectionFailed)
                       ''WebSocket dial failed with status %d: %v'' [ArgD status, ArgV t])
           \<and> (resp = None \<longrightarrow> e = Wrap (Sentinel ErrConnectionFailed) t)
           \<and> (resp \<noteq> Some 404 \<longrightarrow> Is e ErrConnectionFailed \<and> \<not> Is e ErrVMNotReady)"
    using h dialWebSocket_failed [of cfg wsURL E resp t tr]
    by (cases resp) auto
qed

theorem dial_failure_classification_witness:
  "buildWebSocketURL local_config = Inr ''ws://localhost:6120/v1/vms/test-vm/port-forward?port=22&wait=30''
   \<and> fst (dialWebSocket (example_env\<lparr>dial := \<lambda>u h. DialFailed (Some 404) ''bad handshake''\<rparr>)
            local_config [])
       = Inl (Wrapf (Sentinel ErrVMNotReady) ''VM %q not found (HTTP %d)'' [ArgQ ''test-vm'', ArgD 404])
   \<and> fst (dialWebSocket (example_env\<lparr>dial := \<lambda>u h. DialFailed (Some 503) ''bad handshake''\<rparr>)
            local_config [])
       = Inl (Wrapf (Sentinel ErrConnectionFailed) ''failed to connect to VM %q worker (HTTP %d)''
                [ArgQ ''test-vm'', ArgD 503])
   \<and> fst (dialWebSocket (example_env\<lparr>dial := \<lambda>u h. DialFailed (Some 400) ''bad handshake''\<rparr>)
            local_config [])
       = Inl (Wrapf (Sentinel ErrConnectionFailed) ''invalid port specified (HTTP %d)'' [ArgD 400])
   \<and> fst (dialWebSocket (example_env\<lparr>dial := \<lambda>u h. DialFailed (Some 401) ''bad handshake''\<rparr>)
            local_config [])
       = Inl (Wrapf (Sentinel ErrConnectionFailed) ''WebSocket dial failed with status %d: %v''
                [ArgD 401, ArgV ''bad handshake''])
   \<and> fst (dialWebSocket (example_env\<lparr>dial := \<lambda>u h. DialFailed None ''connection refused''\<rparr>)
            local_config [])
       = Inl (Wrap (Sentinel ErrConnectionFailed) ''connection refused'')"
proof -
  let ?u = "''ws://localhost:6120/v1/vms/test-vm/port-forward?port=22&wait=30''"
  let ?E = "\<lambda>r t. example_env\<lparr>dial := \<lambda>u h. DialFailed r t\<rparr>"
  have b: "buildWebSocketURL local_config = Inr ?u"
    by code_simp
  have h: "buildWebSocketURL local_config = Inr ?u
      \<and> dial (?E r t) ?u (headers local_config) = DialFailed r t" for r t
    using b by simp
  have v: "VMName local_config = ''test-vm''"
    by (simp add: local_config_def example_config_def)
  note T = dial_failure_classification [rule_format]
  from T [OF h [of "Some 404" "''bad handshake''"], of "[]"] v
  have c404: "fst (dialWebSocket (?E (Some 404) ''bad handshake'') local_config [])
       = Inl (Wrapf (Sentinel ErrVMNotReady) ''VM %q not found (HTTP %d)'' [ArgQ ''test-vm'', ArgD 404])"
    by auto
  from T [OF h [of "Some 503" "''bad handshake''"], of "[]"] v
  have c503: "fst (dialWebSocket (?E (Some 503) ''bad handshake'') local_config [])
       = Inl (Wrapf (Sentinel ErrConnectionFailed) ''failed to connect to VM %q worker (HTTP %d)''
                [ArgQ ''test-vm'', ArgD 503])"
    by auto
  from T [OF h [of "Some 400" "''bad handshake''"], of "[]"]
  have c400: "fst (dialWebSocket (?E (Some 400) ''bad handshake'') local_config [])
       = Inl (Wrapf (Sentinel ErrConnectionFailed) ''invalid port specified (HTTP %d)'' [ArgD 400])"
    by auto
  from T [OF h [of "Some 401" "''bad handshake''"], of "[]"]
  have c401: "fst (dialWebSocket (?E (Some 401) ''bad handshake'') local_config [])
       = Inl (Wrapf (Sentinel ErrConnectionFailed) ''WebSocket dial failed with status %d: %v''
                [ArgD 401, ArgV ''bad handshake''])"
    by auto
  from T [OF h [of None "''connection refused''"], of "[]"]
  have cnone: "fst (dialWebSocket (?E None ''connection refused'') local_config [])
       = Inl (Wrap (Sentinel ErrConnectionFailed) ''connection refused'')"
    by auto
  from b c404 c503 c400 c401 cnone show ?thesis by simp
qed

section \<open>Opening a session\<close>

lemma Contains_sublist: "Contains s sub \<longleftrightarrow> sublist sub s"
  by (induction s) (auto simp: sublist_Cons_right)

lemma wsNetConn_Close_closed:
  "closed (ws (snd (wsNetConn_Close c))) \<and> cancelled (snd (wsNetConn_Close c))"
  by (simp add: wsNetConn_Close_def ws_Close_def)

lemma NewVMSession_handshake_failed:
  assumes "dialWebSocket E (SetDefaults cfg) tr = (Inr conn, tr1)"
      and "handshake E (sshConfig (SetDefaults cfg)) = Some t"
  shows "NewVMSession E cfg tr =
           (Inl (if Contains t ''unable to authenticate'' then Wrap (Sentinel ErrSSHAuthFailed) t
                 else Wrap (Lib t) ''failed to establish SSH connection''),
            tr1 @ [Handshake (sshConfig (SetDefaults cfg)), CloseStream])"
  using assms by (simp add: NewVMSession_def Let_def case_prod_beta)

lemma NewVMSession_Inr:
  assumes "NewVMSession E cfg tr = (Inr s, tr')"
  shows "\<exists>conn tr1. dialWebSocket E (SetDefaults cfg) tr = (Inr conn, tr1)
           \<and> handshake E (sshConfig (SetDefaults cfg)) = None
           \<and> s = \<lparr>config = SetDefaults cfg, wsConn = Some conn, sshClient = Some Client,
                  sftpClient = None\<rparr>
           \<and> tr' = tr1 @ [Handshake (sshConfig (SetDefaults cfg))]"
  using assms
  by (auto simp: NewVMSession_def Let_def split: prod.splits sum.splits option.splits if_splits)

text \<open>
  Claim C6. When the dial has given a stream and the handshake fails, \<^verbatim>\<open>NewVMSession\<close>
  returns an error and no session, and the last call it made was the close of that stream,
  which leaves the stream closed and its context cancelled. The error wraps
  \<^verbatim>\<open>ErrSSHAuthFailed\<close> when the text of the handshake error contains
  \<^verbatim>\<open>unable to authenticate\<close>; otherwise it is the handshake error wrapped with the message
  \<^verbatim>\<open>failed to establish SSH connection\<close>, which matches no sentinel. A session is returned
  only when the handshake succeeded, and it then holds its stream and its shell client and
  the stream has not been closed.
\<close>

theorem handshake_failure_closes_stream:
  "(\<forall>E cfg tr conn tr1 t.
      dialWebSocket E (SetDefaults cfg) tr = (Inr conn, tr1)
      \<and> handshake E (sshConfig (SetDefaults cfg)) = Some t \<longrightarrow>
        (\<exists>e. NewVMSession E cfg tr
                = (Inl e, tr1 @ [Handshake (sshConfig (SetDefaults cfg)), CloseStream])
           \<and> (Contains t ''unable to authenticate'' \<longrightarrow>
                 e = Wrap (Sentinel ErrSSHAuthFailed) t \<and> Is e ErrSSHAuthFailed)
           \<and> (\<not> Contains t ''unable to authenticate'' \<longrightarrow>
                 e = Wrap (Lib t) ''failed to establish SSH connection''
                 \<and> (\<forall>k. \<not> Is e k)))
        \<and> closed (ws (snd (wsNetConn_Close conn))) \<and> cancelled (snd (wsNetConn_Close conn)))
   \<and> (\<forall>E cfg tr s tr'.
        NewVMSession E cfg tr = (Inr s, tr') \<longrightarrow>
          handshake E (sshConfig (SetDefaults cfg)) = None
          \<and> wsConn s \<noteq> None \<and> sshClient s \<noteq> None
          \<and> CloseStream \<notin> set (drop (length tr) tr'))
   \<and> (\<forall>t. Contains t ''unable to authenticate'' \<longleftrightarrow> sublist ''unable to authenticate'' t)"
proof (intro conjI allI impI)
  fix E :: env and cfg :: TunnelConfig and tr conn tr1 t
  assume h: "dialWebSocket E (SetDefaults cfg) tr = (Inr conn, tr1)
      \<and> handshake E (sshConfig (SetDefaults cfg)) = Some t"
  show "\<exists>e. NewVMSession E cfg tr
                = (Inl e, tr1 @ [Handshake (sshConfig (SetDefaults cfg)), CloseStream])
           \<and> (Contains t ''unable to authenticate'' \<longrightarrow>
                 e = Wrap (Sentinel ErrSSHAuthFailed) t \<and> Is e ErrSSHAuthFailed)
           \<and> (\<not> Contains t ''unable to authenticate'' \<longrightarrow>
                 e = Wrap (Lib t) ''failed to establish SSH connection''
                 \<and> (\<forall>k. \<not> Is e k))"
    using NewVMSession_handshake_failed [of E cfg tr conn tr1 t] h by simp
  show "closed (ws (snd (wsNetConn_Close conn)))" "cancelled (snd (wsNetConn_Close conn))"
    using wsNetConn_Close_closed by blast+
next
  fix E :: env and cfg :: TunnelConfig and tr s tr'
  assume r: "NewVMSession E cfg tr = (Inr s, tr')"
  from NewVMSession_Inr [OF r] obtain conn tr1 where
    d: "dialWebSocket E (SetDefaults cfg) tr = (Inr conn, tr1)"
    and hs: "handshake E (sshConfig (SetDefaults cfg)) = None"
    and s: "s = \<lparr>config = SetDefaults cfg, wsConn = Some conn, sshClient = Some Client,
                 sftpClient = None\<rparr>"
    and t: "tr' = tr1 @ [Handshake (sshConfig (SetDefaults cfg))]"
    by blast
  show "handshake E (sshConfig (SetDefaults cfg)) = None" by (rule hs)
  show "wsConn s \<noteq> None" "sshClient s \<noteq> None" using s by simp_all
  from d have "\<exists>u. tr1 = tr @ [Dial u (headers (SetDefaults cfg))]"
    by (auto simp: dialWebSocket_def Let_def split: sum.splits dial_result.splits option.splits if_splits)
  with t show "CloseStream \<notin> set (drop (length tr) tr')" by auto
next
  fix t
  show "Contains t ''unable to authenticate'' \<longleftrightarrow> sublist ''unable to authenticate'' t"
    by (rule Contains_sublist)
qed

theorem handshake_failure_closes_stream_witness:
  "dialWebSocket (example_env\<lparr>handshake := \<lambda>c. Some ''ssh: unable to authenticate''\<rparr>)
       (SetDefaults local_config) []
     = (Inr fresh_wsNetConn,
        [Dial ''ws://localhost:6120/v1/vms/test-vm/port-forward?port=22&wait=30''
              [(''User-Agent'', ''provider-orchard/1.0'')]])
   \<and> Contains ''ssh: unable to authenticate'' ''unable to authenticate''
   \<and> NewVMSession (example_env\<lparr>handshake := \<lambda>c. Some ''ssh: unable to authenticate''\<rparr>)
         local_config []
       = (Inl (Wrap (Sentinel ErrSSHAuthFailed) ''ssh: unable to authenticate''),
          [Dial ''ws://localhost:6120/v1/vms/test-vm/port-forward?port=22&wait=30''
                [(''User-Agent'', ''provider-orchard/1.0'')],
           Handshake \<lparr>User = ''admin'', Password = ''admin'', HandshakeTimeout = 30000000000\<rparr>,
           CloseStream])
   \<and> fst (NewVMSession example_env local_config []) = Inr example_session
   \<and> handshake example_env (sshConfig (SetDefaults local_config)) = None"
proof -
  let ?E = "example_env\<lparr>handshake := \<lambda>c. Some ''ssh: unable to authenticate''\<rparr>"
  let ?tr1 = "[Dial ''ws://localhost:6120/v1/vms/test-vm/port-forward?port=22&wait=30''
                    [(''User-Agent'', ''provider-orchard/1.0'')]]"
  have d: "dialWebSocket ?E (SetDefaults local_config) [] = (Inr fresh_wsNetConn, ?tr1)"
    by code_simp
  have hs: "handshake ?E (sshConfig (SetDefaults local_config)) = Some ''ssh: unable to authenticate''"
    by simp
  have c: "Contains ''ssh: unable to authenticate'' ''unable to authenticate''"
    by code_simp
  have cfg: "sshConfig (SetDefaults local_config)
      = \<lparr>User = ''admin'', Password = ''admin'', HandshakeTimeout = 30000000000\<rparr>"
    by code_simp
  from handshake_failure_closes_stream [THEN conjunct1, rule_format, OF conjI [OF d hs]] c
  have n: "NewVMSession ?E local_config []
      = (Inl (Wrap (Sentinel ErrSSHAuthFailed) ''ssh: unable to authenticate''),
         ?tr1 @ [Handshake (sshConfig (SetDefaults local_config)), CloseStream])"
    by auto
  have ok: "NewVMSession example_env local_config []
      = (Inr example_session,
         ?tr1 @ [Handshake (sshConfig (SetDefaults local_config))])"
    by code_simp
  from handshake_failure_closes_stream [THEN conjunct2, THEN conjunct1, rule_format, OF ok]
  have h: "handshake example_env (sshConfig (SetDefaults local_config)) = None"
    by simp
  from d c n ok h cfg show ?thesis by simp
qed

section \<open>Closing a session\<close>

lemma vmSession_Close_trace:
  "snd (vmSession_Close E s tr) =
     tr @ (if sftpClient s \<noteq> None then [CloseSftp] else [])
        @ (if sshClient s \<noteq> None then [CloseShell] else [])
        @ (if wsConn s \<noteq> None then [CloseStream] else [])"
  by (auto simp: vmSession_Close_def close_sftp_def close_shell_def close_stream_def Let_def
           split: option.splits prod.splits)

lemma vmSession_Close_result:
  "fst (vmSession_Close E s tr) =
     (if close_failures E s = [] then None
      else Some (Errorv ''errors during close: %v'' (close_failures E s)))"
  by (auto simp: vmSession_Close_def close_sftp_def close_shell_def close_stream_def Let_def
                 close_failures_def wsNetConn_Close_def ws_Close_def
           split: option.splits prod.splits)





section \<open>The facade\<close>

lemma ensureSFTP_cases:
  "ensureSFTP E s tr = ((r, s'), tr') \<Longrightarrow>
     sshClient s' = sshClient s \<and> wsConn s' = wsConn s
     \<and> (r = None \<longrightarrow> sftpClient s' \<noteq> None)
     \<and> (\<forall>e. r = Some e \<longrightarrow> \<not> Is e ErrTimeout)"
  by (auto simp: ensureSFTP_def split: option.splits if_splits)

lemma UploadFile_cases:
  assumes "UploadFile E s content opts tr = ((r, s'), tr')"
  shows "sshClient s' = sshClient s \<and> wsConn s' = wsConn s
     \<and> (r = None \<longrightarrow> sftpClient s' \<noteq> None)
     \<and> (\<forall>e. r = Some e \<longrightarrow> \<not> Is e ErrTimeout)"
proof -
  obtain r0 s0 tr0 where e: "ensureSFTP E s tr = ((r0, s0), tr0)"
    by (metis prod.exhaust)
  note c = ensureSFTP_cases [OF e]
  show ?thesis
  proof (cases r0)
    case (Some a)
    with assms e c show ?thesis by (simp add: UploadFile_def)
  next
    case None
    with assms e have "s' = s0"
      by (auto simp: UploadFile_def Let_def split: option.splits if_splits)
    moreover from assms e None have "\<forall>e. r = Some e \<longrightarrow> \<not> Is e ErrTimeout"
      by (auto simp: UploadFile_def Let_def split: option.splits if_splits)
    ultimately show ?thesis using c None by simp
  qed
qed

lemma RunCloudInit_not_opened:
  "NewVMSession E cfg tr = (Inl e, tr1) \<Longrightarrow>
   RunCloudInit E cfg script vars tr = ((None, Some e), tr1)"
  by (simp add: RunCloudInit_def)

lemma UploadAndRunScript_not_opened:
  "NewVMSession E cfg tr = (Inl e, tr1) \<Longrightarrow>
   UploadAndRunScript E cfg script vars tr = ((None, Some e), tr1)"
  by (simp add: UploadAndRunScript_def)

lemma RunCloudInit_opened:
  assumes "NewVMSession E cfg tr = (Inr session, tr1)"
  shows "RunCloudInit E cfg script vars tr
           = (fst (ExecuteScript E session script vars tr1),
              snd (ExecuteScript E session script vars tr1) @ [CloseShell, CloseStream])"
proof -
  from NewVMSession_Inr [OF assms]
  have f: "sftpClient session = None" "sshClient session \<noteq> None" "wsConn session \<noteq> None"
    by auto
  have "snd (vmSession_Close E session t) = t @ [CloseShell, CloseStream]" for t
    using f by (simp add: vmSession_Close_trace)
  then show ?thesis
    using assms by (simp add: RunCloudInit_def case_prod_beta)
qed

lemma UploadAndRunScript_opened:
  assumes "NewVMSession E cfg tr = (Inr s0, tr1)"
    and "UploadBytes E s0 script \<lparr>RemotePath = scriptPath, Permissions = 493, CreateDirs = True\<rparr> tr1
           = ((r, s1), tr2)"
  shows "UploadAndRunScript E cfg script vars tr =
           (case r of
              Some e \<Rightarrow>
                ((None, Some (Wrap e ''failed to upload script'')),
                 tr2 @ (if sftpClient s1 \<noteq> None then [CloseSftp] else [])
                     @ [CloseShell, CloseStream])
            | None \<Rightarrow>
                (fst (ExecuteCommand E s1 (cmdBuilder vars) tr2),
                 snd (ExecuteCommand E s1 (cmdBuilder vars) tr2)
                   @ [CloseSftp, CloseShell, CloseStream]))"
proof -
  from NewVMSession_Inr [OF assms(1)]
  have f0: "sshClient s0 \<noteq> None" "wsConn s0 \<noteq> None"
    by auto
  from assms(2) have u: "UploadFile E s0 script
      \<lparr>RemotePath = scriptPath, Permissions = 493, CreateDirs = True\<rparr> tr1 = ((r, s1), tr2)"
    by (simp add: UploadBytes_def)
  from UploadFile_cases [OF u] f0
  have f1: "sshClient s1 \<noteq> None" "wsConn s1 \<noteq> None" "r = None \<longrightarrow> sftpClient s1 \<noteq> None"
    by simp_all
  have c: "snd (vmSession_Close E s1 t)
      = t @ (if sftpClient s1 \<noteq> None then [CloseSftp] else []) @ [CloseShell, CloseStream]" for t
    using f1 by (simp add: vmSession_Close_trace)
  show ?thesis
  proof (cases r)
    case None
    with f1 c have "snd (vmSession_Close E s1 t) = t @ [CloseSftp, CloseShell, CloseStream]" for t
      by simp
    with None assms show ?thesis
      by (simp add: UploadAndRunScript_def case_prod_beta)
  next
    case (Some e)
    with assms c show ?thesis
      by (simp add: UploadAndRunScript_def case_prod_beta)
  qed
qed

lemma dialWebSocket_close_indep:
  "dialWebSocket (E\<lparr>sftp_close := a, ssh_close := b\<rparr>) cfg tr = dialWebSocket E cfg tr"
  by (simp add: dialWebSocket_def cong: sum.case_cong)

lemma NewVMSession_close_indep:
  "NewVMSession (E\<lparr>sftp_close := a, ssh_close := b\<rparr>) cfg tr = NewVMSession E cfg tr"
  by (simp add: NewVMSession_def dialWebSocket_close_indep Let_def
           cong: sum.case_cong prod.case_cong)

lemma ExecuteScript_close_indep:
  "ExecuteScript (E\<lparr>sftp_close := a, ssh_close := b\<rparr>) s script vars tr
     = ExecuteScript E s script vars tr"
  by (simp add: ExecuteScript_def cong: option.case_cong)

lemma ExecuteCommand_close_indep:
  "ExecuteCommand (E\<lparr>sftp_close := a, ssh_close := b\<rparr>) s command tr
     = ExecuteCommand E s command tr"
  by (simp add: ExecuteCommand_def cong: option.case_cong)

lemma ensureSFTP_close_indep:
  "ensureSFTP (E\<lparr>sftp_close := a, ssh_close := b\<rparr>) s tr = ensureSFTP E s tr"
  by (simp add: ensureSFTP_def cong: option.case_cong if_cong)

lemma UploadBytes_close_indep:
  "UploadBytes (E\<lparr>sftp_close := a, ssh_close := b\<rparr>) s data opts tr = UploadBytes E s data opts tr"
  by (simp add: UploadBytes_def UploadFile_def ensureSFTP_close_indep Let_def
           cong: option.case_cong prod.case_cong if_cong)

lemma RunCloudInit_result:
  "fst (RunCloudInit E cfg script vars tr) =
     (case NewVMSession E cfg tr of
        (Inl e, tr1) \<Rightarrow> (None, Some e)
      | (Inr session, tr1) \<Rightarrow> fst (ExecuteScript E session script vars tr1))"
  by (simp add: RunCloudInit_def case_prod_beta split: sum.splits)

lemma UploadAndRunScript_result:
  "fst (UploadAndRunScript E cfg script vars tr) =
     (case NewVMSession E cfg tr of
        (Inl e, tr1) \<Rightarrow> (None, Some e)
      | (Inr s0, tr1) \<Rightarrow>
          (case UploadBytes E s0 script
                  \<lparr>RemotePath = scriptPath, Permissions = 493, CreateDirs = True\<rparr> tr1 of
             ((Some e, s1), tr2) \<Rightarrow> (None, Some (Wrap e ''failed to upload script''))
           | ((None, s1), tr2) \<Rightarrow> fst (ExecuteCommand E s1 (cmdBuilder vars) tr2)))"
  by (simp add: UploadAndRunScript_def case_prod_beta split: sum.splits option.splits)

lemma facade_close_indep:
  "fst (RunCloudInit (E\<lparr>sftp_close := a, ssh_close := b\<rparr>) cfg script vars tr)
     = fst (RunCloudInit E cfg script vars tr)
   \<and> fst (UploadAndRunScript (E\<lparr>sftp_close := a, ssh_close := b\<rparr>) cfg script vars tr)
     = fst (UploadAndRunScript E cfg script vars tr)"
  by (simp only: RunCloudInit_result UploadAndRunScript_result NewVMSession_close_indep
        ExecuteScript_close_indep ExecuteCommand_close_indep UploadBytes_close_indep)

text \<open>
  Claim C8, as the code has it. The close of the shell client fails, \<^verbatim>\<open>Close\<close> itself would
  report it, and \<^verbatim>\<open>RunCloudInit\<close> returns the result of the script with no error: the
  failure of the teardown does not reach the caller.
\<close>

theorem facade_close_failure_counterexample:
  "fst (vmSession_Close (example_env\<lparr>ssh_close := Some ''EOF''\<rparr>) example_session [])
     = Some (Errorv ''errors during close: %v'' [Lib ''EOF''])
   \<and> fst (NewVMSession (example_env\<lparr>ssh_close := Some ''EOF''\<rparr>) local_config [])
       = Inr example_session
   \<and> fst (RunCloudInit (example_env\<lparr>ssh_close := Some ''EOF''\<rparr>) local_config ''true'' [] [])
       = (Some \<lparr>ExitCode = 0, Stdout = ''ok'', Stderr = []\<rparr>, None)
   \<and> fst (UploadAndRunScript (example_env\<lparr>ssh_close := Some ''EOF''\<rparr>) local_config ''true'' [] [])
       = (Some \<lparr>ExitCode = 0, Stdout = ''ok'', Stderr = []\<rparr>, None)"
  by code_simp

text \<open>
  Claim C8, amended. When no session can be opened, both operations return the error of
  \<^verbatim>\<open>NewVMSession\<close> and make no further call. Once the session is open, \<^verbatim>\<open>RunCloudInit\<close>
  returns exactly what \<^verbatim>\<open>ExecuteScript\<close> returned, error or not, and its last calls are the
  closes of the shell client and of the stream. \<^verbatim>\<open>UploadAndRunScript\<close> returns the upload
  error wrapped with \<^verbatim>\<open>failed to upload script\<close>, or exactly what \<^verbatim>\<open>ExecuteCommand\<close> returned
  for the command line built, and on both paths its last calls are the closes of the
  file-transfer client (if it was created), the shell client and the stream. What the closes
  answer is dropped: it changes neither the result nor the error returned to the caller.
\<close>

theorem facade_closes_session:
  "(\<forall>E cfg script vars tr e tr1.
      NewVMSession E cfg tr = (Inl e, tr1) \<longrightarrow>
        RunCloudInit E cfg script vars tr = ((None, Some e), tr1)
        \<and> UploadAndRunScript E cfg script vars tr = ((None, Some e), tr1))
   \<and> (\<forall>E cfg script vars tr session tr1.
        NewVMSession E cfg tr = (Inr session, tr1) \<longrightarrow>
          fst (RunCloudInit E cfg script vars tr) = fst (ExecuteScript E session script vars tr1)
          \<and> snd (RunCloudInit E cfg script vars tr)
              = snd (ExecuteScript E session script vars tr1) @ [CloseShell, CloseStream])
   \<and> (\<forall>E cfg script vars tr s0 tr1 e s1 tr2.
        NewVMSession E cfg tr = (Inr s0, tr1)
        \<and> UploadBytes E s0 script \<lparr>RemotePath = scriptPath, Permissions = 493, CreateDirs = True\<rparr> tr1
            = ((Some e, s1), tr2) \<longrightarrow>
          fst (UploadAndRunScript E cfg script vars tr)
            = (None, Some (Wrap e ''failed to upload script''))
          \<and> snd (UploadAndRunScript E cfg script vars tr)
              = tr2 @ (if sftpClient s1 \<noteq> None then [CloseSftp] else [])
                    @ [CloseShell, CloseStream])
   \<and> (\<forall>E cfg script vars tr s0 tr1 s1 tr2.
        NewVMSession E cfg tr = (Inr s0, tr1)
        \<and> UploadBytes E s0 script \<lparr>RemotePath = scriptPath, Permissions = 493, CreateDirs = True\<rparr> tr1
            = ((None, s1), tr2) \<longrightarrow>
          fst (UploadAndRunScript E cfg script vars tr)
            = fst (ExecuteCommand E s1 (cmdBuilder vars) tr2)
          \<and> snd (UploadAndRunScript E cfg script vars tr)
              = snd (ExecuteCommand E s1 (cmdBuilder vars) tr2)
                  @ [CloseSftp, CloseShell, CloseStream])
   \<and> (\<forall>E cfg script vars tr a b.
        fst (RunCloudInit (E\<lparr>sftp_close := a, ssh_close := b\<rparr>) cfg script vars tr)
          = fst (RunCloudInit E cfg script vars tr)
        \<and> fst (UploadAndRunScript (E\<lparr>sftp_close := a, ssh_close := b\<rparr>) cfg script vars tr)
          = fst (UploadAndRunScript E cfg script vars tr))"
proof (intro conjI allI impI)
  fix E :: env and cfg :: TunnelConfig and script vars tr e tr1
  assume "NewVMSession E cfg tr = (Inl e, tr1)"
  then show "RunCloudInit E cfg script vars tr = ((None, Some e), tr1)"
    "UploadAndRunScript E cfg script vars tr = ((None, Some e), tr1)"
    by (simp_all add: RunCloudInit_not_opened UploadAndRunScript_not_opened)
next
  fix E :: env and cfg :: TunnelConfig and script vars tr session tr1
  assume "NewVMSession E cfg tr = (Inr session, tr1)"
  then show "fst (RunCloudInit E cfg script vars tr) = fst (ExecuteScript E session script vars tr1)"
    "snd (RunCloudInit E cfg script vars tr)
       = snd (ExecuteScript E session script vars tr1) @ [CloseShell, CloseStream]"
    by (simp_all add: RunCloudInit_opened)
next
  fix E :: env and cfg :: TunnelConfig and script vars tr s0 tr1 e s1 tr2
  assume h: "NewVMSession E cfg tr = (Inr s0, tr1)
        \<and> UploadBytes E s0 script \<lparr>RemotePath = scriptPath, Permissions = 493, CreateDirs = True\<rparr> tr1
            = ((Some e, s1), tr2)"
  from h UploadAndRunScript_opened [of E cfg tr s0 tr1 script "Some e" s1 tr2 vars]
  show "fst (UploadAndRunScript E cfg script vars tr)
            = (None, Some (Wrap e ''failed to upload script''))"
    "snd (UploadAndRunScript E cfg script vars tr)
              = tr2 @ (if sftpClient s1 \<noteq> None then [CloseSftp] else [])
                    @ [CloseShell, CloseStream]"
    by simp_all
next
  fix E :: env and cfg :: TunnelConfig and script vars tr s0 tr1 s1 tr2
  assume h: "NewVMSession E cfg tr = (Inr s0, tr1)
        \<and> UploadBytes E s0 script \<lparr>RemotePath = scriptPath, Permissions = 493, CreateDirs = True\<rparr> tr1
            = ((None, s1), tr2)"
  from h UploadAndRunScript_opened [of E cfg tr s0 tr1 script None s1 tr2 vars]
  show "fst (UploadAndRunScript E cfg script vars tr)
            = fst (ExecuteCommand E s1 (cmdBuilder vars) tr2)"
    "snd (UploadAndRunScript E cfg script vars tr)
              = snd (ExecuteCommand E s1 (cmdBuilder vars) tr2)
                  @ [CloseSftp, CloseShell, CloseStream]"
    by simp_all
next
  fix E :: env and cfg :: TunnelConfig and script vars tr a b
  show "fst (RunCloudInit (E\<lparr>sftp_close := a, ssh_close := b\<rparr>) cfg script vars tr)
          = fst (RunCloudInit E cfg script vars tr)"
    "fst (UploadAndRunScript (E\<lparr>sftp_close := a, ssh_close := b\<rparr>) cfg script vars tr)
          = fst (UploadAndRunScript E cfg script vars tr)"
    using facade_close_indep by blast+
qed

theorem facade_closes_session_witness:
  "NewVMSession (example_env\<lparr>dial := \<lambda>u h. DialFailed (Some 404) ''bad handshake''\<rparr>) local_config []
     = (Inl (Wrapf (Sentinel ErrVMNotReady) ''VM %q not found (HTTP %d)'' [ArgQ ''test-vm'', ArgD 404]),
        [Dial ''ws://localhost:6120/v1/vms/test-vm/port-forward?port=22&wait=30''
              [(''User-Agent'', ''provider-orchard/1.0'')]])
   \<and> fst (RunCloudInit (example_env\<lparr>dial := \<lambda>u h. DialFailed (Some 404) ''bad handshake''\<rparr>)
            local_config ''true'' [] [])
       = (None, Some (Wrapf (Sentinel ErrVMNotReady) ''VM %q not found (HTTP %d)''
                        [ArgQ ''test-vm'', ArgD 404]))
   \<and> fst (NewVMSession (example_env\<lparr>run := \<lambda>c i. (Some (ExitError 3), [], ''no'')\<rparr>) local_config [])
       = Inr example_session
   \<and> RunCloudInit (example_env\<lparr>run := \<lambda>c i. (Some (ExitError 3), [], ''no'')\<rparr>) local_config
        ''false'' [] []
       = ((Some \<lparr>ExitCode = 3, Stdout = [], Stderr = ''no''\<rparr>, None),
          [Dial ''ws://localhost:6120/v1/vms/test-vm/port-forward?port=22&wait=30''
                [(''User-Agent'', ''provider-orchard/1.0'')],
           Handshake \<lparr>User = ''admin'', Password = ''admin'', HandshakeTimeout = 30000000000\<rparr>,
           NewSession, Run ''/bin/bash'' ''#!/bin/bash\<newline>set -e\<newline>false'', CloseSession,
           CloseShell, CloseStream])
   \<and> UploadAndRunScript (example_env\<lparr>sftp_create := \<lambda>p. Some ''permission denied''\<rparr>) local_config
        ''true'' [] []
       = ((None, Some (Wrap (Wrapf (Sentinel ErrSFTPFailed) ''failed to create file %s: %v''
                                [ArgS ''/tmp/cloudinit-script.sh'', ArgV ''permission denied''])
                        ''failed to upload script'')),
          [Dial ''ws://localhost:6120/v1/vms/test-vm/port-forward?port=22&wait=30''
                [(''User-Agent'', ''provider-orchard/1.0'')],
           Handshake \<lparr>User = ''admin'', Password = ''admin'', HandshakeTimeout = 30000000000\<rparr>,
           NewSftp, MkdirAll ''/tmp'', Create ''/tmp/cloudinit-script.sh'',
           CloseSftp, CloseShell, CloseStream])
   \<and> UploadAndRunScript example_env local_config ''true'' [(''A'', ''b'')] []
       = ((Some \<lparr>ExitCode = 0, Stdout = ''ok'', Stderr = []\<rparr>, None),
          [Dial ''ws://localhost:6120/v1/vms/test-vm/port-forward?port=22&wait=30''
                [(''User-Agent'', ''provider-orchard/1.0'')],
           Handshake \<lparr>User = ''admin'', Password = ''admin'', HandshakeTimeout = 30000000000\<rparr>,
           NewSftp, MkdirAll ''/tmp'', Create ''/tmp/cloudinit-script.sh'',
           Copy ''/tmp/cloudinit-script.sh'' ''true'', Chmod ''/tmp/cloudinit-script.sh'' 493,
           CloseFile ''/tmp/cloudinit-script.sh'',
           NewSession, Run (''export A='' @ [CHR 0x27] @ ''b'' @ [CHR 0x27] @ ''; /tmp/cloudinit-script.sh'') [],
           CloseSession, CloseSftp, CloseShell, CloseStream])"
proof -
  let ?d = "Dial ''ws://localhost:6120/v1/vms/test-vm/port-forward?port=22&wait=30''
                 [(''User-Agent'', ''provider-orchard/1.0'')]"
  let ?h = "Handshake \<lparr>User = ''admin'', Password = ''admin'', HandshakeTimeout = 30000000000\<rparr>"
  let ?opts = "\<lparr>RemotePath = scriptPath, Permissions = 493, CreateDirs = True\<rparr>"
  let ?E1 = "example_env\<lparr>dial := \<lambda>u h. DialFailed (Some 404) ''bad handshake''\<rparr>"
  let ?E2 = "example_env\<lparr>run := \<lambda>c i. (Some (ExitError 3), [], ''no'')\<rparr>"
  let ?E3 = "example_env\<lparr>sftp_create := \<lambda>p. Some ''permission denied''\<rparr>"
  let ?s1 = "example_session\<lparr>sftpClient := Some Client\<rparr>"
  note T = facade_closes_session
  have n1: "NewVMSession ?E1 local_config []
     = (Inl (Wrapf (Sentinel ErrVMNotReady) ''VM %q not found (HTTP %d)'' [ArgQ ''test-vm'', ArgD 404]),
        [?d])"
    by code_simp
  from T [THEN conjunct1, rule_format, OF n1, of "''true''" "[]"]
  have r1: "fst (RunCloudInit ?E1 local_config ''true'' [] [])
       = (None, Some (Wrapf (Sentinel ErrVMNotReady) ''VM %q not found (HTTP %d)''
                        [ArgQ ''test-vm'', ArgD 404]))"
    by simp
  have n2: "NewVMSession ?E2 local_config [] = (Inr example_session, [?d, ?h])"
    by code_simp
  have x2: "ExecuteScript ?E2 example_session ''false'' [] [?d, ?h]
      = ((Some \<lparr>ExitCode = 3, Stdout = [], Stderr = ''no''\<rparr>, None),
         [?d, ?h, NewSession, Run ''/bin/bash'' ''#!/bin/bash\<newline>set -e\<newline>false'', CloseSession])"
    by code_simp
  from T [THEN conjunct2, THEN conjunct1, rule_format, OF n2, of "''false''" "[]"] x2
  have r2: "RunCloudInit ?E2 local_config ''false'' [] []
       = ((Some \<lparr>ExitCode = 3, Stdout = [], Stderr = ''no''\<rparr>, None),
          [?d, ?h, NewSession, Run ''/bin/bash'' ''#!/bin/bash\<newline>set -e\<newline>false'', CloseSession,
           CloseShell, CloseStream])"
    by (simp add: prod_eq_iff)
  have n3: "NewVMSession ?E3 local_config [] = (Inr example_session, [?d, ?h])"
    by code_simp
  have u3: "UploadBytes ?E3 example_session ''true'' ?opts [?d, ?h]
      = ((Some (Wrapf (Sentinel ErrSFTPFailed) ''failed to create file %s: %v''
                  [ArgS ''/tmp/cloudinit-script.sh'', ArgV ''permission denied'']), ?s1),
         [?d, ?h, NewSftp, MkdirAll ''/tmp'', Create ''/tmp/cloudinit-script.sh''])"
    by code_simp
  have sf: "sftpClient ?s1 \<noteq> None"
    by simp
  from T [THEN conjunct2, THEN conjunct2, THEN conjunct1, rule_format, OF conjI [OF n3 u3], of "[]"] sf
  have r3: "UploadAndRunScript ?E3 local_config ''true'' [] []
       = ((None, Some (Wrap (Wrapf (Sentinel ErrSFTPFailed) ''failed to create file %s: %v''
                                [ArgS ''/tmp/cloudinit-script.sh'', ArgV ''permission denied''])
                        ''failed to upload script'')),
          [?d, ?h, NewSftp, MkdirAll ''/tmp'', Create ''/tmp/cloudinit-script.sh'',
           CloseSftp, CloseShell, CloseStream])"
    by (simp add: prod_eq_iff)
  have n4: "NewVMSession example_env local_config [] = (Inr example_session, [?d, ?h])"
    by code_simp
  have u4: "UploadBytes example_env example_session ''true'' ?opts [?d, ?h]
      = ((None, ?s1),
         [?d, ?h, NewSftp, MkdirAll ''/tmp'', Create ''/tmp/cloudinit-script.sh'',
          Copy ''/tmp/cloudinit-script.sh'' ''true'', Chmod ''/tmp/cloudinit-script.sh'' 493,
          CloseFile ''/tmp/cloudinit-script.sh''])"
    by code_simp
  have x4: "ExecuteCommand example_env ?s1 (cmdBuilder [(''A'', ''b'')])
        [?d, ?h, NewSftp, MkdirAll ''/tmp'', Create ''/tmp/cloudinit-script.sh'',
          Copy ''/tmp/cloudinit-script.sh'' ''true'', Chmod ''/tmp/cloudinit-script.sh'' 493,
          CloseFile ''/tmp/cloudinit-script.sh'']
      = ((Some \<lparr>ExitCode = 0, Stdout = ''ok'', Stderr = []\<rparr>, None),
         [?d, ?h, NewSftp, MkdirAll ''/tmp'', Create ''/tmp/cloudinit-script.sh'',
          Copy ''/tmp/cloudinit-script.sh'' ''true'', Chmod ''/tmp/cloudinit-script.sh'' 493,
          CloseFile ''/tmp/cloudinit-script.sh'',
          NewSession, Run (''export A='' @ [CHR 0x27] @ ''b'' @ [CHR 0x27] @ ''; /tmp/cloudinit-script.sh'') [],
          CloseSession])"
    by code_simp
  from T [THEN conjunct2, THEN conjunct2, THEN conjunct2, THEN conjunct1, rule_format,
          OF conjI [OF n4 u4], of "[(''A'', ''b'')]"] x4
  have r4: "UploadAndRunScript example_env local_config ''true'' [(''A'', ''b'')] []
       = ((Some \<lparr>ExitCode = 0, Stdout = ''ok'', Stderr = []\<rparr>, None),
          [?d, ?h, NewSftp, MkdirAll ''/tmp'', Create ''/tmp/cloudinit-script.sh'',
           Copy ''/tmp/cloudinit-script.sh'' ''true'', Chmod ''/tmp/cloudinit-script.sh'' 493,
           CloseFile ''/tmp/cloudinit-script.sh'',
           NewSession, Run (''export A='' @ [CHR 0x27] @ ''b'' @ [CHR 0x27] @ ''; /tmp/cloudinit-script.sh'') [],
           CloseSession, CloseSftp, CloseShell, CloseStream])"
    by (simp add: prod_eq_iff)
  from n1 r1 n2 r2 r3 r4 show ?thesis
    by simp
qed

section \<open>Deadlines\<close>

lemma dialWebSocket_never_timeout:
  "fst (dialWebSocket E cfg tr) = Inl e \<Longrightarrow> \<not> Is e ErrTimeout"
  by (auto simp: dialWebSocket_def Let_def buildWebSocketURL_def
           split: sum.splits dial_result.splits option.splits if_splits)

lemma NewVMSession_never_timeout:
  "fst (NewVMSession E cfg tr) = Inl e \<Longrightarrow> \<not> Is e ErrTimeout"
  using dialWebSocket_never_timeout [of E "SetDefaults cfg" tr]
  by (auto simp: NewVMSession_def Let_def split: prod.splits sum.splits option.splits if_splits)

lemma ExecuteCommand_never_timeout:
  "snd (fst (ExecuteCommand E s command tr)) = Some e \<Longrightarrow> \<not> Is e ErrTimeout"
  by (auto simp: ExecuteCommand_def Let_def split: option.splits prod.splits run_error.splits)

lemma ExecuteScript_never_timeout:
  "snd (fst (ExecuteScript E s script vars tr)) = Some e \<Longrightarrow> \<not> Is e ErrTimeout"
  by (auto simp: ExecuteScript_def Let_def split: option.splits prod.splits run_error.splits)

lemma UploadFile_never_timeout:
  assumes "fst (fst (UploadFile E s content opts tr)) = Some e"
  shows "\<not> Is e ErrTimeout"
proof -
  obtain r s' tr' where u: "UploadFile E s content opts tr = ((r, s'), tr')"
    by (metis prod.exhaust)
  with assms have "r = Some e" by simp
  with UploadFile_cases [OF u] show ?thesis by simp
qed

lemma vmSession_Close_never_timeout:
  "fst (vmSession_Close E s tr) = Some e \<Longrightarrow> \<not> Is e ErrTimeout"
  by (auto simp: vmSession_Close_result split: if_splits)

lemma RunCloudInit_never_timeout:
  assumes "snd (fst (RunCloudInit E cfg script vars tr)) = Some e"
  shows "\<not> Is e ErrTimeout"
proof (cases "NewVMSession E cfg tr")
  case (Pair r tr1)
  show ?thesis
  proof (cases r)
    case (Inl e')
    with Pair assms NewVMSession_never_timeout [of E cfg tr e'] show ?thesis
      by (simp add: RunCloudInit_result)
  next
    case (Inr session)
    with Pair assms ExecuteScript_never_timeout [of E session script vars tr1 e] show ?thesis
      by (simp add: RunCloudInit_result)
  qed
qed

lemma UploadAndRunScript_never_timeout:
  assumes "snd (fst (UploadAndRunScript E cfg script vars tr)) = Some e"
  shows "\<not> Is e ErrTimeout"
proof (cases "NewVMSession E cfg tr")
  case (Pair r tr1)
  show ?thesis
  proof (cases r)
    case (Inl e')
    with Pair assms NewVMSession_never_timeout [of E cfg tr e'] show ?thesis
      by (simp add: UploadAndRunScript_result)
  next
    case (Inr s0)
    let ?opts = "\<lparr>RemotePath = scriptPath, Permissions = 493, CreateDirs = True\<rparr>"
    obtain u s1 tr2 where up: "UploadFile E s0 script ?opts tr1 = ((u, s1), tr2)"
      by (metis prod.exhaust)
    show ?thesis
    proof (cases u)
      case None
      with Pair Inr up assms ExecuteCommand_never_timeout [of E s1 "cmdBuilder vars" tr2 e]
      show ?thesis
        by (simp add: UploadAndRunScript_result UploadBytes_def)
    next
      case (Some e')
      with Pair Inr up assms UploadFile_cases [OF up] show ?thesis
        by (auto simp: UploadAndRunScript_result UploadBytes_def)
    qed
  qed
qed

text \<open>
  Claim C9, as the code has it. The deadline of the context passes during the dial: the
  dial fails with no response and the text of \<^verbatim>\<open>context.DeadlineExceeded\<close>. The error
  returned is of the \<^verbatim>\<open>ConnectionFailed\<close> kind and not of the \<^verbatim>\<open>Timeout\<close> kind.
\<close>

theorem deadline_counterexample:
  "fst (dialWebSocket deadline_env local_config [])
     = Inl (Wrap (Sentinel ErrConnectionFailed) ''context deadline exceeded'')
   \<and> \<not> Is (Wrap (Sentinel ErrConnectionFailed) ''context deadline exceeded'') ErrTimeout
   \<and> Is (Wrap (Sentinel ErrConnectionFailed) ''context deadline exceeded'') ErrConnectionFailed
   \<and> snd (fst (RunCloudInit deadline_env local_config ''true'' [] []))
       = Some (Wrap (Sentinel ErrConnectionFailed) ''context deadline exceeded'')"
  by code_simp

text \<open>
  Claim C9, amended. A dial that fails with no response, as it does when the deadline of
  the context passes, gives an error of the \<^verbatim>\<open>ConnectionFailed\<close> kind that carries the text of
  the cause. No operation of the layer returns an error of the \<^verbatim>\<open>Timeout\<close> kind. The
  \<^verbatim>\<open>Timeout\<close> sentinel itself matches \<^verbatim>\<open>errors.Is\<close> for \<^verbatim>\<open>ErrTimeout\<close> only, so a caller could tell
  it from the four other kinds.
\<close>

theorem timeout_kind_is_never_returned:
  "(\<forall>E cfg tr wsURL t.
      buildWebSocketURL cfg = Inr wsURL \<and> dial E wsURL (headers cfg) = DialFailed None t \<longrightarrow>
        fst (dialWebSocket E cfg tr) = Inl (Wrap (Sentinel ErrConnectionFailed) t)
        \<and> Is (Wrap (Sentinel ErrConnectionFailed) t) ErrConnectionFailed)
   \<and> (\<forall>E cfg tr e. fst (dialWebSocket E cfg tr) = Inl e \<longrightarrow> \<not> Is e ErrTimeout)
   \<and> (\<forall>E cfg tr e. fst (NewVMSession E cfg tr) = Inl e \<longrightarrow> \<not> Is e ErrTimeout)
   \<and> (\<forall>E s command tr e.
        snd (fst (ExecuteCommand E s command tr)) = Some e \<longrightarrow> \<not> Is e ErrTimeout)
   \<and> (\<forall>E s script vars tr e.
        snd (fst (ExecuteScript E s script vars tr)) = Some e \<longrightarrow> \<not> Is e ErrTimeout)
   \<and> (\<forall>E s content opts tr e.
        fst (fst (UploadFile E s content opts tr)) = Some e \<longrightarrow> \<not> Is e ErrTimeout)
   \<and> (\<forall>E s tr e. fst (vmSession_Close E s tr) = Some e \<longrightarrow> \<not> Is e ErrTimeout)
   \<and> (\<forall>E cfg script vars tr e.
        snd (fst (RunCloudInit E cfg script vars tr)) = Some e \<longrightarrow> \<not> Is e ErrTimeout)
   \<and> (\<forall>E cfg script vars tr e.
        snd (fst (UploadAndRunScript E cfg script vars tr)) = Some e \<longrightarrow> \<not> Is e ErrTimeout)
   \<and> (\<forall>k. Is (Sentinel ErrTimeout) k \<longleftrightarrow> k = ErrTimeout)"
proof (intro conjI allI impI)
  fix E :: env and cfg :: TunnelConfig and tr wsURL t
  assume "buildWebSocketURL cfg = Inr wsURL \<and> dial E wsURL (headers cfg) = DialFailed None t"
  then show "fst (dialWebSocket E cfg tr) = Inl (Wrap (Sentinel ErrConnectionFailed) t)"
    by (simp add: dialWebSocket_def)
  show "Is (Wrap (Sentinel ErrConnectionFailed) t) ErrConnectionFailed"
    by simp
next
  fix E :: env and cfg :: TunnelConfig and tr e
  assume "fst (dialWebSocket E cfg tr) = Inl e"
  then show "\<not> Is e ErrTimeout" by (rule dialWebSocket_never_timeout)
next
  fix E :: env and cfg :: TunnelConfig and tr e
  assume "fst (NewVMSession E cfg tr) = Inl e"
  then show "\<not> Is e ErrTimeout" by (rule NewVMSession_never_timeout)
next
  fix E :: env and s :: vmSession and command tr e
  assume "snd (fst (ExecuteCommand E s command tr)) = Some e"
  then show "\<not> Is e ErrTimeout" by (rule ExecuteCommand_never_timeout)
next
  fix E :: env and s :: vmSession and script vars tr e
  assume "snd (fst (ExecuteScript E s script vars tr)) = Some e"
  then show "\<not> Is e ErrTimeout" by (rule ExecuteScript_never_timeout)
next
  fix E :: env and s :: vmSession and content opts tr e
  assume "fst (fst (UploadFile E s content opts tr)) = Some e"
  then show "\<not> Is e ErrTimeout" by (rule UploadFile_never_timeout)
next
  fix E :: env and s :: vmSession and tr e
  assume "fst (vmSession_Close E s tr) = Some e"
  then show "\<not> Is e ErrTimeout" by (rule vmSession_Close_never_timeout)
next
  fix E :: env and cfg :: TunnelConfig and script vars tr e
  assume "snd (fst (RunCloudInit E cfg script vars tr)) = Some e"
  then show "\<not> Is e ErrTimeout" by (rule RunCloudInit_never_timeout)
next
  fix E :: env and cfg :: TunnelConfig and script vars tr e
  assume "snd (fst (UploadAndRunScript E cfg script vars tr)) = Some e"
  then show "\<not> Is e ErrTimeout" by (rule UploadAndRunScript_never_timeout)
next
  fix k
  show "Is (Sentinel ErrTimeout) k \<longleftrightarrow> k = ErrTimeout"
    by auto
qed

theorem timeout_kind_is_never_returned_witness:
  "buildWebSocketURL local_config = Inr ''ws://localhost:6120/v1/vms/test-vm/port-forward?port=22&wait=30''
   \<and> fst (dialWebSocket (example_env\<lparr>dial := \<lambda>u h. DialFailed None ''i/o timeout''\<rparr>) local_config [])
       = Inl (Wrap (Sentinel ErrConnectionFailed) ''i/o timeout'')
   \<and> \<not> Is (Wrap (Sentinel ErrConnectionFailed) ''i/o timeout'') ErrTimeout
   \<and> snd (fst (ExecuteCommand (example_env\<lparr>run := \<lambda>c i. (Some (RunFailed ''EOF''), [], [])\<rparr>)
                 example_session ''sleep 60'' []))
       = Some (Wrap (Lib ''EOF'') ''command execution failed'')
   \<and> \<not> Is (Wrap (Lib ''EOF'') ''command execution failed'') ErrTimeout
   \<and> fst (NewVMSession (example_env\<lparr>handshake := \<lambda>c. Some ''i/o timeout''\<rparr>) local_config [])
       = Inl (Wrap (Lib ''i/o timeout'') ''failed to establish SSH connection'')
   \<and> snd (fst (ExecuteScript (example_env\<lparr>run := \<lambda>c i. (Some (RunFailed ''EOF''), [], [])\<rparr>)
                 example_session ''sleep 60'' [] []))
       = Some (Wrap (Lib ''EOF'') ''script execution failed'')
   \<and> \<not> Is (Wrap (Lib ''EOF'') ''script execution failed'') ErrTimeout
   \<and> fst (fst (UploadFile (example_env\<lparr>sftp_new := Some ''i/o timeout''\<rparr>) example_session ''data''
                 \<lparr>RemotePath = ''/tmp/f'', Permissions = 0, CreateDirs = False\<rparr> []))
       = Some (Wrap (Sentinel ErrSFTPFailed) ''i/o timeout'')
   \<and> fst (vmSession_Close (example_env\<lparr>ssh_close := Some ''i/o timeout''\<rparr>) example_session [])
       = Some (Errorv ''errors during close: %v'' [Lib ''i/o timeout''])
   \<and> snd (fst (RunCloudInit (example_env\<lparr>dial := \<lambda>u h. DialFailed None ''i/o timeout''\<rparr>)
                 local_config ''true'' [] []))
       = Some (Wrap (Sentinel ErrConnectionFailed) ''i/o timeout'')
   \<and> snd (fst (UploadAndRunScript (example_env\<lparr>sftp_new := Some ''i/o timeout''\<rparr>)
                 local_config ''true'' [] []))
       = Some (Wrap (Wrap (Sentinel ErrSFTPFailed) ''i/o timeout'') ''failed to upload script'')
   \<and> \<not> Is (Wrap (Wrap (Sentinel ErrSFTPFailed) ''i/o timeout'') ''failed to upload script'') ErrTimeout"
proof -
  let ?u = "''ws://localhost:6120/v1/vms/test-vm/port-forward?port=22&wait=30''"
  let ?E = "example_env\<lparr>dial := \<lambda>u h. DialFailed None ''i/o timeout''\<rparr>"
  let ?R = "example_env\<lparr>run := \<lambda>c i. (Some (RunFailed ''EOF''), [], [])\<rparr>"
  note T = timeout_kind_is_never_returned
  have b: "buildWebSocketURL local_config = Inr ?u"
    by code_simp
  have d: "dial ?E ?u (headers local_config) = DialFailed None ''i/o timeout''"
    by simp
  from T [THEN conjunct1, rule_format, OF conjI [OF b d], of "[]"]
  have f: "fst (dialWebSocket ?E local_config []) = Inl (Wrap (Sentinel ErrConnectionFailed) ''i/o timeout'')"
    by simp
  from T [THEN conjunct2, THEN conjunct1, rule_format, OF f]
  have n: "\<not> Is (Wrap (Sentinel ErrConnectionFailed) ''i/o timeout'') ErrTimeout" .
  have x: "snd (fst (ExecuteCommand ?R example_session ''sleep 60'' []))
       = Some (Wrap (Lib ''EOF'') ''command execution failed'')"
    by code_simp
  from T [THEN conjunct2, THEN conjunct2, THEN conjunct2, THEN conjunct1, rule_format, OF x]
  have m: "\<not> Is (Wrap (Lib ''EOF'') ''command execution failed'') ErrTimeout" .
  have v: "fst (NewVMSession (example_env\<lparr>handshake := \<lambda>c. Some ''i/o timeout''\<rparr>) local_config [])
       = Inl (Wrap (Lib ''i/o timeout'') ''failed to establish SSH connection'')"
    by code_simp
  from T [THEN conjunct2, THEN conjunct2, THEN conjunct1, rule_format, OF v]
  have v': "\<not> Is (Wrap (Lib ''i/o timeout'') ''failed to establish SSH connection'') ErrTimeout" .
  have y: "snd (fst (ExecuteScript ?R example_session ''sleep 60'' [] []))
       = Some (Wrap (Lib ''EOF'') ''script execution failed'')"
    by code_simp
  from T [THEN conjunct2, THEN conjunct2, THEN conjunct2, THEN conjunct2, THEN conjunct1,
          rule_format, OF y]
  have y': "\<not> Is (Wrap (Lib ''EOF'') ''script execution failed'') ErrTimeout" .
  have w: "fst (fst (UploadFile (example_env\<lparr>sftp_new := Some ''i/o timeout''\<rparr>) example_session ''data''
                 \<lparr>RemotePath = ''/tmp/f'', Permissions = 0, CreateDirs = False\<rparr> []))
       = Some (Wrap (Sentinel ErrSFTPFailed) ''i/o timeout'')"
    by code_simp
  from T [THEN conjunct2, THEN conjunct2, THEN conjunct2, THEN conjunct2, THEN conjunct2,
          THEN conjunct1, rule_format, OF w]
  have w': "\<not> Is (Wrap (Sentinel ErrSFTPFailed) ''i/o timeout'') ErrTimeout" .
  have z: "fst (vmSession_Close (example_env\<lparr>ssh_close := Some ''i/o timeout''\<rparr>) example_session [])
       = Some (Errorv ''errors during close: %v'' [Lib ''i/o timeout''])"
    by code_simp
  from T [THEN conjunct2, THEN conjunct2, THEN conjunct2, THEN conjunct2, THEN conjunct2,
          THEN conjunct2, THEN conjunct1, rule_format, OF z]
  have z': "\<not> Is (Errorv ''errors during close: %v'' [Lib ''i/o timeout'']) ErrTimeout" .
  have p: "snd (fst (RunCloudInit ?E local_config ''true'' [] []))
       = Some (Wrap (Sentinel ErrConnectionFailed) ''i/o timeout'')"
    by code_simp
  from T [THEN conjunct2, THEN conjunct2, THEN conjunct2, THEN conjunct2, THEN conjunct2,
          THEN conjunct2, THEN conjunct2, THEN conjunct1, rule_format, OF p]
  have p': "\<not> Is (Wrap (Sentinel ErrConnectionFailed) ''i/o timeout'') ErrTimeout" .
  have q: "snd (fst (UploadAndRunScript (example_env\<lparr>sftp_new := Some ''i/o timeout''\<rparr>)
                 local_config ''true'' [] []))
       = Some (Wrap (Wrap (Sentinel ErrSFTPFailed) ''i/o timeout'') ''failed to upload script'')"
    by code_simp
  from T [THEN conjunct2, THEN conjunct2, THEN conjunct2, THEN conjunct2, THEN conjunct2,
          THEN conjunct2, THEN conjunct2, THEN conjunct2, THEN conjunct1, rule_format, OF q]
  have q': "\<not> Is (Wrap (Wrap (Sentinel ErrSFTPFailed) ''i/o timeout'') ''failed to upload script'')
              ErrTimeout" .
  from b f n x m v y y' w z p q q' show ?thesis by simp
qed

end
